theory Spec2Isabelle
  imports Main "HOL-Library.Word" "HOL-Library.Char_ord"
begin

unbundle bit_operations_syntax

section \<open>Constants of library/protocol.c\<close>

definition BUFFER_SIZE :: nat where
  "BUFFER_SIZE = 32768"

definition COMMAND_BUFFER_SIZE :: nat where
  "COMMAND_BUFFER_SIZE = 8192"

text \<open>
  Modelled from the spec: the error codes are macros of twopence.h, which is not among
  the sources. The spec (section 6, exit codes) says that they are distinct integers and
  that all of them are negative; the numbers below are one such choice, and the proofs
  use nothing else about them.
\<close>

definition TWOPENCE_PARAMETER_ERROR :: int where
  "TWOPENCE_PARAMETER_ERROR = - 1"

definition TWOPENCE_OPEN_SESSION_ERROR :: int where
  "TWOPENCE_OPEN_SESSION_ERROR = - 2"

definition TWOPENCE_SEND_COMMAND_ERROR :: int where
  "TWOPENCE_SEND_COMMAND_ERROR = - 3"

definition TWOPENCE_FORWARD_INPUT_ERROR :: int where
  "TWOPENCE_FORWARD_INPUT_ERROR = - 4"

definition TWOPENCE_RECEIVE_RESULTS_ERROR :: int where
  "TWOPENCE_RECEIVE_RESULTS_ERROR = - 5"

definition TWOPENCE_LOCAL_FILE_ERROR :: int where
  "TWOPENCE_LOCAL_FILE_ERROR = - 7"

definition TWOPENCE_SEND_FILE_ERROR :: int where
  "TWOPENCE_SEND_FILE_ERROR = - 8"

definition TWOPENCE_REMOTE_FILE_ERROR :: int where
  "TWOPENCE_REMOTE_FILE_ERROR = - 9"

definition TWOPENCE_RECEIVE_FILE_ERROR :: int where
  "TWOPENCE_RECEIVE_FILE_ERROR = - 10"

definition TWOPENCE_INTERRUPT_COMMAND_ERROR :: int where
  "TWOPENCE_INTERRUPT_COMMAND_ERROR = - 11"

definition TWOPENCE_PROTOCOL_ERROR :: int where
  "TWOPENCE_PROTOCOL_ERROR = - 16"

lemmas twopence_errors =
  TWOPENCE_PARAMETER_ERROR_def TWOPENCE_OPEN_SESSION_ERROR_def
  TWOPENCE_SEND_COMMAND_ERROR_def TWOPENCE_FORWARD_INPUT_ERROR_def
  TWOPENCE_RECEIVE_RESULTS_ERROR_def TWOPENCE_LOCAL_FILE_ERROR_def
  TWOPENCE_SEND_FILE_ERROR_def TWOPENCE_REMOTE_FILE_ERROR_def
  TWOPENCE_RECEIVE_FILE_ERROR_def TWOPENCE_INTERRUPT_COMMAND_ERROR_def
  TWOPENCE_PROTOCOL_ERROR_def

section \<open>The outside world of the client\<close>

text \<open>
  The client talks to a link (through the plug-in's open, recv and send), to the local
  file, to standard input and to the output sink. None of these is code of protocol.c,
  so the model takes their answers from the \<open>world\<close>: each system call pops the next
  scripted answer, and the calls that move data are appended to \<open>trace\<close>.
  Bytes are \<open>char\<close> (eight bits), C strings are \<open>char list\<close>. There is one link
  and one local file, so the functions of the model take no descriptor for them.

  \<^item> \<open>link_rx\<close>: one entry per round of poll(POLLIN) and recv on the link. When the
    script is empty the poll times out.
  \<^item> \<open>link_tx\<close>: one entry per round of poll(POLLOUT) and send. When the script is
    empty the link takes every byte offered.
  \<^item> \<open>poll_both\<close>: one entry per two-descriptor poll of the link and standard input.
    When the script is empty the poll times out. The script is finite, so a descriptor
    that stays ready for ever without being read is outside the model.
  \<^item> \<open>stdin_rd\<close>, \<open>file_rd\<close>: answers of read(2); an empty script is end of file.
  \<^item> \<open>file_wr\<close>: answers of write(2); an empty script writes everything.
  \<^item> \<open>results_stack\<close>, \<open>major_stack\<close>, \<open>minor_stack\<close>, \<open>size_stack\<close>: the bytes of
    memory from the address of the \<open>char buffer[BUFFER_SIZE]\<close> of
    \<open>_twopence_read_results\<close>, \<open>_twopence_read_major\<close>, \<open>_twopence_read_minor\<close> and
    \<open>_twopence_read_size\<close> on, as they are when the function is entered. The source
    does not initialise these arrays, and \<open>sscanf\<close> reads them beyond the frame when
    the payload has no NUL.
  \<^item> \<open>send_pad\<close>: the byte at offset 1 of the buffer of \<open>_twopence_send_file\<close>, which
    the source sends without ever writing it.
\<close>

datatype rx_event = RxPollError | RxTimeout | RxError nat | RxData "char list"

datatype tx_event = TxPollError | TxTimeout | TxError nat | TxAccept nat

datatype rd_event = RdEintr | RdError | RdData "char list"

datatype wr_event = WrError | WrAccept nat

datatype poll2_event = P2Eintr | P2Error | P2Timeout | P2Ready bool bool

datatype open_result = OpenOk | OpenNameTooLong | OpenFailed

datatype syscall =
    SysOpenLink
  | SysCloseLink
  | SysRecvLink "char list"
  | SysSendLink "char list"
  | SysReadStdin "char list"
  | SysOpenFile
  | SysCloseFile
  | SysFstat
  | SysReadFile "char list"
  | SysWriteFile "char list"
  | SysTuneStdin bool
  | SinkStdout char
  | SinkStderr char

record world =
  link_open_rc :: int
  link_rx :: "rx_event list"
  link_tx :: "tx_event list"
  poll_both :: "poll2_event list"
  stdin_rd :: "rd_event list"
  tune_stdin_rc :: int
  file_open :: open_result
  file_st_size :: nat
  file_rd :: "rd_event list"
  file_wr :: "wr_event list"
  stdout_room :: "nat option"
  stderr_room :: "nat option"
  results_stack :: "char list"
  major_stack :: "char list"
  minor_stack :: "char list"
  size_stack :: "char list"
  send_pad :: char
  trace :: "syscall list"

definition emit :: "syscall \<Rightarrow> world \<Rightarrow> world" where
  "emit e w = w\<lparr>trace := trace w @ [e]\<rparr>"

text \<open>
  Modelled from the spec: the output sink (\<open>__twopence_sink_write_stdout\<close> and
  \<open>__twopence_sink_write_stderr\<close>) is not among the sources. Section 4.6 of the spec:
  a sink is the screen, a buffer, two buffers or nothing, and overrunning a buffer is an
  error. \<open>stdout_room\<close> and \<open>stderr_room\<close> hold the room left in a buffer
  (\<open>None\<close>: no bound).
\<close>

definition twopence_sink_write_stdout :: "world \<Rightarrow> char \<Rightarrow> int \<times> world" where
  "twopence_sink_write_stdout w c =
     (case stdout_room w of
        None \<Rightarrow> (0, emit (SinkStdout c) w)
      | Some 0 \<Rightarrow> (- 1, w)
      | Some (Suc n) \<Rightarrow> (0, emit (SinkStdout c) (w\<lparr>stdout_room := Some n\<rparr>)))"

definition twopence_sink_write_stderr :: "world \<Rightarrow> char \<Rightarrow> int \<times> world" where
  "twopence_sink_write_stderr w c =
     (case stderr_room w of
        None \<Rightarrow> (0, emit (SinkStderr c) w)
      | Some 0 \<Rightarrow> (- 1, w)
      | Some (Suc n) \<Rightarrow> (0, emit (SinkStderr c) (w\<lparr>stderr_room := Some n\<rparr>)))"

section \<open>Lower layer\<close>

text \<open>
  \<open>store_length\<close>: \<open>buffer[2] = (length & 0xFF00) >> 8; buffer[3] = length & 0xFF\<close>.
\<close>

definition store_length :: "nat \<Rightarrow> char list \<Rightarrow> char list" where
  "store_length len buffer =
     buffer[2 := char_of (drop_bit 8 (len AND 0xFF00)), 3 := char_of (len AND 0xFF)]"

text \<open>
  \<open>compute_length\<close>: \<open>(cp[2] << 8) | cp[3]\<close> on unsigned bytes. Every caller has
  read four header bytes before.
\<close>

definition compute_length :: "char list \<Rightarrow> nat" where
  "compute_length cp = push_bit 8 (of_char (cp ! 2)) OR of_char (cp ! 3)"

definition twopence_pipe_output :: "world \<Rightarrow> char \<Rightarrow> int \<times> world" where
  "twopence_pipe_output w c = twopence_sink_write_stdout w c"

definition twopence_pipe_error :: "world \<Rightarrow> char \<Rightarrow> int \<times> world" where
  "twopence_pipe_error w c = twopence_sink_write_stderr w c"

text \<open>
  \<open>_twopence_invalid_username\<close>: the loop runs to the terminating NUL of the C string
  (the end of the list, or a NUL byte in it) and returns true at the first character
  outside the four accepted classes.
\<close>

fun twopence_invalid_username :: "char list \<Rightarrow> bool" where
  "twopence_invalid_username [] = False"
| "twopence_invalid_username (c # p) =
     (if c = CHR 0x00 then False
      else if CHR ''0'' \<le> c \<and> c \<le> CHR ''9'' then twopence_invalid_username p
      else if CHR ''A'' \<le> c \<and> c \<le> CHR ''Z'' then twopence_invalid_username p
      else if CHR ''a'' \<le> c \<and> c \<le> CHR ''z'' then twopence_invalid_username p
      else if c = CHR ''_'' then twopence_invalid_username p
      else True)"

text \<open>
  \<open>__twopence_pipe_recvbuf\<close>: \<open>buf\<close> holds the bytes received so far
  (\<open>received = length buf\<close>). Each round polls the link and, when it is readable,
  calls the plug-in's recv for the \<open>size - received\<close> bytes still missing. The result
  is the return value, the bytes stored in the buffer and the world.
\<close>

function twopence_pipe_recvbuf :: "world \<Rightarrow> nat \<Rightarrow> char list \<Rightarrow> int \<times> char list \<times> world" where
  "twopence_pipe_recvbuf w sz buf =
     (if length buf < sz then
        (case link_rx w of
           [] \<Rightarrow> (TWOPENCE_PROTOCOL_ERROR, buf, w)
         | RxPollError # rx \<Rightarrow> (TWOPENCE_PROTOCOL_ERROR, buf, w\<lparr>link_rx := rx\<rparr>)
         | RxTimeout # rx \<Rightarrow> (TWOPENCE_PROTOCOL_ERROR, buf, w\<lparr>link_rx := rx\<rparr>)
         | RxError e # rx \<Rightarrow>
             (- int e - 1, buf, emit (SysRecvLink []) (w\<lparr>link_rx := rx\<rparr>))
         | RxData bs # rx \<Rightarrow>
             (let got = take (sz - length buf) bs;
                  rest = drop (sz - length buf) bs;
                  w' = emit (SysRecvLink got)
                         (w\<lparr>link_rx := (if rest = [] then rx else RxData rest # rx)\<rparr>)
              in if got = [] then (TWOPENCE_PROTOCOL_ERROR, buf, w')
                 else twopence_pipe_recvbuf w' sz (buf @ got)))
      else (int (length buf), buf, w))"
  by pat_completeness auto
termination
  by (relation "measure (\<lambda>(w, sz, buf). sz - length buf)") (auto simp: neq_Nil_conv)

declare twopence_pipe_recvbuf.simps [simp del]

text \<open>
  \<open>__twopence_pipe_sendbuf\<close>: \<open>buffer\<close> is the \<open>count\<close> bytes to send,
  \<open>sent\<close> the number already sent. A send that fails returns the plug-in's negative
  result; a send that takes no byte is tried again.
\<close>

function twopence_pipe_sendbuf_from :: "world \<Rightarrow> char list \<Rightarrow> nat \<Rightarrow> int \<times> world" where
  "twopence_pipe_sendbuf_from w buffer sent =
     (if sent < length buffer then
        (case link_tx w of
           [] \<Rightarrow> twopence_pipe_sendbuf_from (emit (SysSendLink (drop sent buffer)) w) buffer (length buffer)
         | TxPollError # tx \<Rightarrow> (TWOPENCE_PROTOCOL_ERROR, w\<lparr>link_tx := tx\<rparr>)
         | TxTimeout # tx \<Rightarrow> (TWOPENCE_PROTOCOL_ERROR, w\<lparr>link_tx := tx\<rparr>)
         | TxError e # tx \<Rightarrow> (- int e - 1, emit (SysSendLink []) (w\<lparr>link_tx := tx\<rparr>))
         | TxAccept n # tx \<Rightarrow>
             (let out = take n (drop sent buffer)
              in twopence_pipe_sendbuf_from (emit (SysSendLink out) (w\<lparr>link_tx := tx\<rparr>))
                   buffer (sent + length out)))
      else (int sent, w))"
  by pat_completeness auto
termination
  by (relation "measure (\<lambda>(w, buffer, sent). length (link_tx w) + (length buffer - sent))")
     (auto simp: emit_def)

declare twopence_pipe_sendbuf_from.simps [simp del]

definition twopence_pipe_sendbuf :: "world \<Rightarrow> char list \<Rightarrow> int \<times> world" where
  "twopence_pipe_sendbuf w buffer = twopence_pipe_sendbuf_from w buffer 0"

text \<open>
  \<open>__twopence_pipe_read_frame\<close>: the header, the two length checks in the order of the
  source, then the payload. The buffer returned is the header followed by the payload.
\<close>

definition twopence_pipe_read_frame :: "world \<Rightarrow> nat \<Rightarrow> int \<times> char list \<times> world" where
  "twopence_pipe_read_frame w sz =
     (case twopence_pipe_recvbuf w 4 [] of (rc, header, w1) \<Rightarrow>
        if rc < 0 then (rc, header, w1)
        else if compute_length header > sz then (TWOPENCE_PROTOCOL_ERROR, header, w1)
        else if compute_length header < 4 then (TWOPENCE_PROTOCOL_ERROR, header, w1)
        else (case twopence_pipe_recvbuf w1 (compute_length header - 4) [] of (rc', payload, w2) \<Rightarrow>
                if rc' < 0 then (rc', header @ payload, w2)
                else (0, header @ payload, w2)))"

text \<open>
  The local file and standard input: read(2) and write(2). Every call is traced, a
  failed one with no data.
\<close>

definition file_read :: "world \<Rightarrow> nat \<Rightarrow> int \<times> char list \<times> world" where
  "file_read w n =
     (case file_rd w of
        [] \<Rightarrow> (0, [], emit (SysReadFile []) w)
      | RdEintr # rd \<Rightarrow> (- 1, [], emit (SysReadFile []) (w\<lparr>file_rd := rd\<rparr>))
      | RdError # rd \<Rightarrow> (- 1, [], emit (SysReadFile []) (w\<lparr>file_rd := rd\<rparr>))
      | RdData bs # rd \<Rightarrow>
          (int (length (take n bs)), take n bs,
           emit (SysReadFile (take n bs))
             (w\<lparr>file_rd := (if drop n bs = [] then rd else RdData (drop n bs) # rd)\<rparr>)))"

definition file_write :: "world \<Rightarrow> char list \<Rightarrow> int \<times> world" where
  "file_write w bs =
     (case file_wr w of
        [] \<Rightarrow> (int (length bs), emit (SysWriteFile bs) w)
      | WrError # wr \<Rightarrow> (- 1, emit (SysWriteFile []) (w\<lparr>file_wr := wr\<rparr>))
      | WrAccept n # wr \<Rightarrow>
          (int (length (take n bs)), emit (SysWriteFile (take n bs)) (w\<lparr>file_wr := wr\<rparr>)))"

text \<open>The result of \<open>stdin_read\<close>: the count, the bytes, whether errno is EINTR.\<close>

definition stdin_read :: "world \<Rightarrow> nat \<Rightarrow> int \<times> char list \<times> bool \<times> world" where
  "stdin_read w n =
     (case stdin_rd w of
        [] \<Rightarrow> (0, [], False, emit (SysReadStdin []) w)
      | RdEintr # rd \<Rightarrow> (- 1, [], True, emit (SysReadStdin []) (w\<lparr>stdin_rd := rd\<rparr>))
      | RdError # rd \<Rightarrow> (- 1, [], False, emit (SysReadStdin []) (w\<lparr>stdin_rd := rd\<rparr>))
      | RdData bs # rd \<Rightarrow>
          (int (length (take n bs)), take n bs, False,
           emit (SysReadStdin (take n bs))
             (w\<lparr>stdin_rd := (if drop n bs = [] then rd else RdData (drop n bs) # rd)\<rparr>)))"

text \<open>
  \<open>__twopence_pipe_recvbuf_both\<close>. \<open>twopence_pipe_recvbuf_both_body\<close> is one pass
  through the body of its \<open>while (true)\<close>: \<open>Inr\<close> is a \<open>return\<close>, \<open>Inl\<close> is a
  \<open>continue\<close> or the end of the body. \<open>P2Ready l s\<close> is a poll that returns a positive count with
  \<open>pfd[0].revents & POLLIN = l\<close> (the link) and \<open>pfd[1].revents & POLLIN = s\<close>
  (standard input). The second test is written as in the source: it reads \<open>pfd[0]\<close>
  again. Header bytes that the source leaves unwritten are NUL in the buffer returned.
\<close>

definition twopence_pipe_recvbuf_both_body ::
  "world \<Rightarrow> int \<Rightarrow> nat \<Rightarrow> world + (int \<times> char list \<times> world)" where
  "twopence_pipe_recvbuf_both_body w stdin_fd sz =
     (case poll_both w of
        [] \<Rightarrow> Inr (TWOPENCE_PROTOCOL_ERROR, [], w)
      | P2Eintr # ps \<Rightarrow> Inl (w\<lparr>poll_both := ps\<rparr>)
      | P2Error # ps \<Rightarrow> Inr (TWOPENCE_PROTOCOL_ERROR, [], w\<lparr>poll_both := ps\<rparr>)
      | P2Timeout # ps \<Rightarrow> Inr (TWOPENCE_PROTOCOL_ERROR, [], w\<lparr>poll_both := ps\<rparr>)
      | P2Ready pfd0_in pfd1_in # ps \<Rightarrow>
          (let nfds = (if stdin_fd \<ge> 0 then 2 else 1 :: nat)
           in if pfd0_in then Inr (twopence_pipe_read_frame (w\<lparr>poll_both := ps\<rparr>) sz)
              else if nfds > 1 \<and> pfd0_in then
                (case stdin_read (w\<lparr>poll_both := ps\<rparr>) (sz - 4) of
                   (count, data, eintr, w') \<Rightarrow>
                     if count < 0 then (if eintr then Inl w' else Inr (count, [], w'))
                     else
                       Inr (count + 4,
                            store_length (nat (count + 4))
                              ((if count = 0 then CHR ''E'' else CHR ''0'')
                                 # CHR 0x00 # CHR 0x00 # CHR 0x00 # data),
                            w'))
              else Inl (w\<lparr>poll_both := ps\<rparr>)))"

lemma recvbuf_both_body_continue:
  "twopence_pipe_recvbuf_both_body w stdin_fd sz = Inl w' \<Longrightarrow> length (poll_both w') < length (poll_both w)"
  by (auto simp: twopence_pipe_recvbuf_both_body_def Let_def split: list.splits poll2_event.splits if_splits)

function twopence_pipe_recvbuf_both :: "world \<Rightarrow> int \<Rightarrow> nat \<Rightarrow> int \<times> char list \<times> world" where
  "twopence_pipe_recvbuf_both w stdin_fd sz =
     (case twopence_pipe_recvbuf_both_body w stdin_fd sz of
        Inl w' \<Rightarrow> twopence_pipe_recvbuf_both w' stdin_fd sz
      | Inr result \<Rightarrow> result)"
  by pat_completeness auto
termination
  by (relation "measure (\<lambda>(w :: world, stdin_fd :: int, sz :: nat). length (poll_both w))")
     (auto dest: recvbuf_both_body_continue)

declare twopence_pipe_recvbuf_both.simps [simp del]

section \<open>Middle layer\<close>

text \<open>
  \<open>sscanf(s, "%d", p)\<close> of the C library: white space is skipped, then an optional
  sign and at least one decimal digit are read; when there is no digit, \<open>*p\<close> keeps
  its value. The string ends at its first NUL byte (or where the bytes given to the
  model end). The C standard leaves a number that does not fit an \<open>int\<close> undefined; the
  model does what the GNU C library does where \<open>long\<close> has 64 bits and \<open>int\<close> 32: the
  digits are converted as by \<open>strtol\<close>, which stops at \<open>LONG_MAX\<close> and \<open>LONG_MIN\<close>
  (\<open>strtol_sat\<close>), and the \<open>long\<close> is stored in the \<open>int\<close>, which keeps its low 32
  bits (\<open>store_int\<close>).

  \<open>stored bytes stack\<close> is the memory that held \<open>stack\<close> after \<open>bytes\<close> were written
  to its start: the bytes behind those written are the ones that were there before.
\<close>

definition c_str :: "char list \<Rightarrow> char list" where
  "c_str s = takeWhile (\<lambda>c. c \<noteq> CHR 0x00) s"

definition isspace_c :: "char \<Rightarrow> bool" where
  "isspace_c c \<longleftrightarrow>
     c = CHR '' '' \<or> c = CHR 0x09 \<or> c = CHR 0x0A \<or> c = CHR 0x0B \<or> c = CHR 0x0C \<or> c = CHR 0x0D"

definition isdigit_c :: "char \<Rightarrow> bool" where
  "isdigit_c c \<longleftrightarrow> CHR ''0'' \<le> c \<and> c \<le> CHR ''9''"

fun scan_digits :: "int \<Rightarrow> char list \<Rightarrow> int" where
  "scan_digits acc [] = acc"
| "scan_digits acc (c # cs) =
     (if isdigit_c c then scan_digits (acc * 10 + (of_char c - 48)) cs else acc)"

definition scan_unsigned :: "char list \<Rightarrow> int option" where
  "scan_unsigned s =
     (case s of [] \<Rightarrow> None
      | c # cs \<Rightarrow> if isdigit_c c then Some (scan_digits 0 s) else None)"

definition strtol_sat :: "int \<Rightarrow> int" where
  "strtol_sat v = max (- (2 ^ 63)) (min (2 ^ 63 - 1) v)"

definition store_int :: "int \<Rightarrow> int" where
  "store_int v = sint (word_of_int (strtol_sat v) :: 32 word)"

definition sscanf_d :: "char list \<Rightarrow> int \<Rightarrow> int" where
  "sscanf_d s old =
     (case dropWhile isspace_c (c_str s) of
        [] \<Rightarrow> old
      | c # cs \<Rightarrow>
          (if c = CHR ''-'' then
             (case scan_unsigned cs of None \<Rightarrow> old | Some v \<Rightarrow> store_int (- v))
           else if c = CHR ''+'' then
             (case scan_unsigned cs of None \<Rightarrow> old | Some v \<Rightarrow> store_int v)
           else (case scan_unsigned (c # cs) of None \<Rightarrow> old | Some v \<Rightarrow> store_int v)))"

definition stored :: "char list \<Rightarrow> char list \<Rightarrow> char list" where
  "stored bytes stack = bytes @ drop (length bytes) stack"

text \<open>
  \<open>_twopence_read_major\<close>, \<open>_twopence_read_minor\<close>: the second argument is the value
  of \<open>*major\<close> (\<open>*minor\<close>) at the call, the second result its value at the return.
  \<open>buffer\<close> is the local array after the frame was read into it.
\<close>

definition twopence_read_major :: "world \<Rightarrow> int \<Rightarrow> int \<times> int \<times> world" where
  "twopence_read_major w major =
     (case twopence_pipe_read_frame w BUFFER_SIZE of (rc, bytes, w1) \<Rightarrow>
        let buffer = stored bytes (major_stack w)
        in if rc \<noteq> 0 then (TWOPENCE_RECEIVE_FILE_ERROR, major, w1)
           else if buffer ! 0 \<noteq> CHR ''M'' then (TWOPENCE_RECEIVE_FILE_ERROR, major, w1)
           else (0, sscanf_d (drop 4 buffer) major, w1))"

definition twopence_read_minor :: "world \<Rightarrow> int \<Rightarrow> int \<times> int \<times> world" where
  "twopence_read_minor w minor =
     (case twopence_pipe_read_frame w BUFFER_SIZE of (rc, bytes, w1) \<Rightarrow>
        let buffer = stored bytes (minor_stack w)
        in if rc \<noteq> 0 then (TWOPENCE_RECEIVE_FILE_ERROR, minor, w1)
           else if buffer ! 0 \<noteq> CHR ''m'' then (TWOPENCE_RECEIVE_FILE_ERROR, minor, w1)
           else (0, sscanf_d (drop 4 buffer) minor, w1))"

text \<open>
  \<open>_twopence_read_size\<close>: the results are the return value, \<open>*size\<close> and
  \<open>*remote_rc\<close>.
\<close>

definition twopence_read_size :: "world \<Rightarrow> int \<Rightarrow> int \<Rightarrow> int \<times> int \<times> int \<times> world" where
  "twopence_read_size w size0 remote_rc =
     (case twopence_pipe_read_frame w BUFFER_SIZE of (rc, bytes, w1) \<Rightarrow>
        let buffer = stored bytes (size_stack w)
        in if rc \<noteq> 0 then (TWOPENCE_RECEIVE_FILE_ERROR, size0, remote_rc, w1)
           else if buffer ! 0 = CHR ''s'' then
             (0, sscanf_d (drop 4 buffer) size0, remote_rc, w1)
           else if buffer ! 0 = CHR ''M'' then
             (0, size0, sscanf_d (drop 4 buffer) remote_rc, w1)
           else (TWOPENCE_RECEIVE_FILE_ERROR, size0, remote_rc, w1))"

section \<open>What can be observed of a run\<close>

text \<open>
  \<open>link_sent\<close>: the bytes given to the link, in order. \<open>file_written\<close>: the bytes
  written to the local file. \<open>file_reads\<close>: the number of read(2) calls on the local
  file. \<open>rx_size\<close> bounds what the link can still deliver.
\<close>

fun sent_of :: "syscall \<Rightarrow> char list" where
  "sent_of (SysSendLink bs) = bs"
| "sent_of _ = []"

fun written_of :: "syscall \<Rightarrow> char list" where
  "written_of (SysWriteFile bs) = bs"
| "written_of _ = []"

fun is_file_read :: "syscall \<Rightarrow> bool" where
  "is_file_read (SysReadFile bs) = True"
| "is_file_read _ = False"

definition link_sent :: "world \<Rightarrow> char list" where
  "link_sent w = concat (map sent_of (trace w))"

definition file_written :: "world \<Rightarrow> char list" where
  "file_written w = concat (map written_of (trace w))"

definition file_reads :: "world \<Rightarrow> nat" where
  "file_reads w = length (filter is_file_read (trace w))"

definition link_closed :: "world \<Rightarrow> bool" where
  "link_closed w \<longleftrightarrow> count_list (trace w) SysOpenLink = count_list (trace w) SysCloseLink"

fun rx_weight :: "rx_event \<Rightarrow> nat" where
  "rx_weight (RxData bs) = Suc (length bs)"
| "rx_weight _ = 1"

definition rx_size :: "world \<Rightarrow> nat" where
  "rx_size w = sum_list (map rx_weight (link_rx w))"

lemma recvbuf_keeps:
  "poll_both (snd (snd (twopence_pipe_recvbuf w sz buf))) = poll_both w \<and>
   link_tx (snd (snd (twopence_pipe_recvbuf w sz buf))) = link_tx w \<and>
   link_sent (snd (snd (twopence_pipe_recvbuf w sz buf))) = link_sent w \<and>
   file_written (snd (snd (twopence_pipe_recvbuf w sz buf))) = file_written w \<and>
   rx_size (snd (snd (twopence_pipe_recvbuf w sz buf))) \<le> rx_size w"
proof (induction w sz buf rule: twopence_pipe_recvbuf.induct)
  case (1 w sz buf)
  show ?case
  proof (cases "length buf < sz")
    case False
    then show ?thesis by (simp add: twopence_pipe_recvbuf.simps [of w sz buf])
  next
    case True
    show ?thesis
    proof (cases "link_rx w")
      case Nil
      then show ?thesis using True by (simp add: twopence_pipe_recvbuf.simps [of w sz buf])
    next
      case (Cons e rx)
      show ?thesis
      proof (cases e)
        case (RxData bs)
        show ?thesis
        proof (cases "take (sz - length buf) bs = []")
          case True
          then show ?thesis
            using \<open>length buf < sz\<close> Cons RxData
            by (simp add: twopence_pipe_recvbuf.simps [of w sz buf] Let_def emit_def link_sent_def
                file_written_def rx_size_def)
        next
          case False
          from "1.IH" [OF \<open>length buf < sz\<close> Cons RxData refl refl refl False]
          show ?thesis
            using \<open>length buf < sz\<close> Cons RxData False
            by (auto simp add: twopence_pipe_recvbuf.simps [of w sz buf] Let_def emit_def link_sent_def
                file_written_def rx_size_def split: if_splits)
        qed
      qed (use True Cons in \<open>simp_all add: twopence_pipe_recvbuf.simps [of w sz buf] Let_def emit_def link_sent_def
                file_written_def rx_size_def\<close>)
    qed
  qed
qed


lemma recvbuf_keeps_file:
  "file_wr (snd (snd (twopence_pipe_recvbuf w sz buf))) = file_wr w \<and>
   file_rd (snd (snd (twopence_pipe_recvbuf w sz buf))) = file_rd w \<and>
   stdin_rd (snd (snd (twopence_pipe_recvbuf w sz buf))) = stdin_rd w \<and>
   file_reads (snd (snd (twopence_pipe_recvbuf w sz buf))) = file_reads w"
proof (induction w sz buf rule: twopence_pipe_recvbuf.induct)
  case (1 w sz buf)
  show ?case
  proof (cases "length buf < sz")
    case False
    then show ?thesis by (simp add: twopence_pipe_recvbuf.simps [of w sz buf])
  next
    case True
    show ?thesis
    proof (cases "link_rx w")
      case Nil
      then show ?thesis using True by (simp add: twopence_pipe_recvbuf.simps [of w sz buf])
    next
      case (Cons e rx)
      show ?thesis
      proof (cases e)
        case (RxData bs)
        show ?thesis
        proof (cases "take (sz - length buf) bs = []")
          case True
          then show ?thesis
            using \<open>length buf < sz\<close> Cons RxData
            by (simp add: twopence_pipe_recvbuf.simps [of w sz buf] Let_def emit_def file_reads_def
                file_written_def rx_size_def)
        next
          case False
          from "1.IH" [OF \<open>length buf < sz\<close> Cons RxData refl refl refl False]
          show ?thesis
            using \<open>length buf < sz\<close> Cons RxData False
            by (auto simp add: twopence_pipe_recvbuf.simps [of w sz buf] Let_def emit_def file_reads_def
                file_written_def rx_size_def split: if_splits)
        qed
      qed (use True Cons in \<open>simp_all add: twopence_pipe_recvbuf.simps [of w sz buf] Let_def emit_def file_reads_def
                file_written_def rx_size_def\<close>)
    qed
  qed
qed


lemma recvbuf_less:
  assumes "length buf < sz" "0 \<le> fst (twopence_pipe_recvbuf w sz buf)"
  shows "rx_size (snd (snd (twopence_pipe_recvbuf w sz buf))) < rx_size w"
proof (cases "link_rx w")
  case Nil
  then show ?thesis using assms by (simp add: twopence_pipe_recvbuf.simps [of w sz buf] twopence_errors)
next
  case (Cons e rx)
  show ?thesis
  proof (cases e)
    case (RxData bs)
    let ?w = "emit (SysRecvLink (take (sz - length buf) bs))
       (w\<lparr>link_rx := (if drop (sz - length buf) bs = [] then rx
                        else RxData (drop (sz - length buf) bs) # rx)\<rparr>)"
    from assms Cons RxData have ne: "take (sz - length buf) bs \<noteq> []"
      by (auto simp add: twopence_pipe_recvbuf.simps [of w sz buf] Let_def twopence_errors)
    then have "rx_size ?w < rx_size w"
      using Cons RxData assms(1) by (auto simp: rx_size_def emit_def)
    moreover have "rx_size (snd (snd (twopence_pipe_recvbuf ?w sz (buf @ take (sz - length buf) bs)))) \<le> rx_size ?w"
      using recvbuf_keeps by blast
    ultimately show ?thesis
      using assms(1) Cons RxData ne by (simp add: twopence_pipe_recvbuf.simps [of w sz buf] Let_def)
  qed (use assms Cons in \<open>simp_all add: twopence_pipe_recvbuf.simps [of w sz buf] twopence_errors\<close>)
qed

lemma read_frame_keeps:
  "poll_both (snd (snd (twopence_pipe_read_frame w sz))) = poll_both w \<and>
   link_tx (snd (snd (twopence_pipe_read_frame w sz))) = link_tx w \<and>
   link_sent (snd (snd (twopence_pipe_read_frame w sz))) = link_sent w \<and>
   file_written (snd (snd (twopence_pipe_read_frame w sz))) = file_written w \<and>
   file_wr (snd (snd (twopence_pipe_read_frame w sz))) = file_wr w \<and>
   file_rd (snd (snd (twopence_pipe_read_frame w sz))) = file_rd w \<and>
   stdin_rd (snd (snd (twopence_pipe_read_frame w sz))) = stdin_rd w \<and>
   file_reads (snd (snd (twopence_pipe_read_frame w sz))) = file_reads w \<and>
   rx_size (snd (snd (twopence_pipe_read_frame w sz))) \<le> rx_size w"
proof -
  obtain rc header w1 where h: "twopence_pipe_recvbuf w 4 [] = (rc, header, w1)"
    by (cases "twopence_pipe_recvbuf w 4 []") auto
  obtain rc' payload w2 where p: "twopence_pipe_recvbuf w1 (compute_length header - 4) [] = (rc', payload, w2)"
    by (cases "twopence_pipe_recvbuf w1 (compute_length header - 4) []") auto
  from recvbuf_keeps [of w 4 "[]"] h have k1:
    "poll_both w1 = poll_both w" "link_tx w1 = link_tx w" "link_sent w1 = link_sent w"
    "file_written w1 = file_written w" "rx_size w1 \<le> rx_size w"
    by simp_all
  from recvbuf_keeps_file [of w 4 "[]"] h have f1:
    "file_wr w1 = file_wr w" "file_rd w1 = file_rd w" "stdin_rd w1 = stdin_rd w"
    "file_reads w1 = file_reads w"
    by simp_all
  from recvbuf_keeps [of w1 "compute_length header - 4" "[]"] p have k2:
    "poll_both w2 = poll_both w1" "link_tx w2 = link_tx w1" "link_sent w2 = link_sent w1"
    "file_written w2 = file_written w1" "rx_size w2 \<le> rx_size w1"
    by simp_all
  from recvbuf_keeps_file [of w1 "compute_length header - 4" "[]"] p have f2:
    "file_wr w2 = file_wr w1" "file_rd w2 = file_rd w1" "stdin_rd w2 = stdin_rd w1"
    "file_reads w2 = file_reads w1"
    by simp_all
  show ?thesis
    using h p k1 k2 f1 f2 by (simp add: twopence_pipe_read_frame_def)
qed

lemma read_frame_less:
  assumes "fst (twopence_pipe_read_frame w sz) = 0"
  shows "rx_size (snd (snd (twopence_pipe_read_frame w sz))) < rx_size w"
proof -
  obtain rc header w1 where h: "twopence_pipe_recvbuf w 4 [] = (rc, header, w1)"
    by (cases "twopence_pipe_recvbuf w 4 []") auto
  obtain rc' payload w2 where p: "twopence_pipe_recvbuf w1 (compute_length header - 4) [] = (rc', payload, w2)"
    by (cases "twopence_pipe_recvbuf w1 (compute_length header - 4) []") auto
  from assms h have rc: "0 \<le> rc"
    by (auto simp: twopence_pipe_read_frame_def split: if_splits)
  from recvbuf_less [of "[]" 4 w] h rc have l1: "rx_size w1 < rx_size w"
    by simp
  from recvbuf_keeps [of w1 "compute_length header - 4" "[]"] p have l2: "rx_size w2 \<le> rx_size w1"
    by simp
  show ?thesis
    using assms h p l1 l2 by (auto simp: twopence_pipe_read_frame_def twopence_errors split: if_splits)
qed

lemma sendbuf_from_keeps:
  "poll_both (snd (twopence_pipe_sendbuf_from w buffer sent)) = poll_both w \<and>
   link_rx (snd (twopence_pipe_sendbuf_from w buffer sent)) = link_rx w \<and>
   file_written (snd (twopence_pipe_sendbuf_from w buffer sent)) = file_written w \<and>
   file_reads (snd (twopence_pipe_sendbuf_from w buffer sent)) = file_reads w"
proof (induction w buffer sent rule: twopence_pipe_sendbuf_from.induct)
  case (1 w buffer sent)
  show ?case
  proof (cases "sent < length buffer")
    case False
    then show ?thesis by (simp add: twopence_pipe_sendbuf_from.simps [of w buffer sent])
  next
    case True
    show ?thesis
    proof (cases "link_tx w")
      case Nil
      from "1.IH" (1) [OF True Nil] show ?thesis
        using True Nil
        by (simp add: twopence_pipe_sendbuf_from.simps [of w buffer sent] emit_def file_written_def file_reads_def)
    next
      case (Cons e tx)
      show ?thesis
      proof (cases e)
        case (TxAccept n)
        from "1.IH" (2) [OF True Cons TxAccept refl] show ?thesis
          using True Cons TxAccept
          by (simp add: twopence_pipe_sendbuf_from.simps [of w buffer sent] Let_def emit_def file_written_def file_reads_def)
      qed (use True Cons in \<open>simp_all add: twopence_pipe_sendbuf_from.simps [of w buffer sent] emit_def
             file_written_def file_reads_def\<close>)
    qed
  qed
qed

text \<open>
  \<open>_twopence_send_file\<close>. The frame sent is the byte \<open>'d'\<close>, the length stored by
  \<open>store_length\<close> and the bytes read; header byte 1, which the source leaves
  unwritten, is the world's \<open>send_pad\<close>. The test after \<open>twopence_pipe_sendbuf\<close> is the source's
  \<open>if (!__twopence_pipe_sendbuf(...))\<close>: it holds when the result is 0.
\<close>

function twopence_send_file :: "world \<Rightarrow> int \<Rightarrow> int \<times> world" where
  "twopence_send_file w remaining =
     (if remaining > 0 then
        (let size = (if remaining < int BUFFER_SIZE - 4 then remaining else int BUFFER_SIZE - 4)
         in case file_read w (nat size) of (received, data, w1) \<Rightarrow>
              if received \<noteq> size then
                (TWOPENCE_LOCAL_FILE_ERROR, snd (twopence_pipe_output w1 (CHR 0x0A)))
              else
                (case twopence_pipe_sendbuf w1
                        (take (nat (received + 4))
                           (store_length (nat (received + 4))
                              (CHR ''d'' # send_pad w # CHR 0x00 # CHR 0x00 # data))) of
                   (sent, w2) \<Rightarrow>
                     if sent = 0 then
                       (TWOPENCE_SEND_FILE_ERROR, snd (twopence_pipe_output w2 (CHR 0x0A)))
                     else twopence_send_file (snd (twopence_pipe_output w2 (CHR ''.''))) (remaining - received)))
      else (0, snd (twopence_pipe_output w (CHR 0x0A))))"
  by pat_completeness auto
termination
  by (relation "measure (\<lambda>(w :: world, remaining :: int). nat remaining)")
     (auto simp: BUFFER_SIZE_def split: if_splits)

declare twopence_send_file.simps [simp del]

lemma file_write_rx_size: "(written, w2) = file_write w bs \<Longrightarrow> rx_size w2 = rx_size w"
  by (auto simp: file_write_def emit_def rx_size_def split: list.splits wr_event.splits)

lemma pipe_output_rx_size: "rx_size (snd (twopence_pipe_output w c)) = rx_size w"
  by (simp add: twopence_pipe_output_def twopence_sink_write_stdout_def emit_def rx_size_def
      split: option.splits nat.splits)

lemma read_frame_consumes: "(0, buffer, w1) = twopence_pipe_read_frame w sz \<Longrightarrow> rx_size w1 < rx_size w"
  using read_frame_less [of w sz] by (cases "twopence_pipe_read_frame w sz") auto

lemma read_frame_write_consumes:
  "(0, buffer, w1) = twopence_pipe_read_frame w sz \<Longrightarrow> (written, w2) = file_write w1 bs \<Longrightarrow>
   rx_size w2 < rx_size w"
  using read_frame_consumes [of buffer w1 w sz] file_write_rx_size [of written w2 w1 bs]
  by simp

text \<open>\<open>_twopence_receive_file\<close>.\<close>

function twopence_receive_file :: "world \<Rightarrow> int \<Rightarrow> int \<times> world" where
  "twopence_receive_file w remaining =
     (if remaining > 0 then
        (case twopence_pipe_read_frame w BUFFER_SIZE of (rc, buffer, w1) \<Rightarrow>
           if rc \<noteq> 0 then (TWOPENCE_RECEIVE_FILE_ERROR, snd (twopence_pipe_output w1 (CHR 0x0A)))
           else
             (let received = int (compute_length buffer) - 4
              in if buffer ! 0 \<noteq> CHR ''d'' \<or> received < 0 \<or> received > remaining then
                   (TWOPENCE_RECEIVE_FILE_ERROR, snd (twopence_pipe_output w1 (CHR 0x0A)))
                 else if received > 0 then
                   (case file_write w1 (take (nat received) (drop 4 buffer)) of
                      (written, w2) \<Rightarrow>
                        if written \<noteq> received then
                          (TWOPENCE_LOCAL_FILE_ERROR, snd (twopence_pipe_output w2 (CHR 0x0A)))
                        else twopence_receive_file (snd (twopence_pipe_output w2 (CHR ''.''))) (remaining - received))
                 else twopence_receive_file w1 remaining))
      else (0, snd (twopence_pipe_output w (CHR 0x0A))))"
  by pat_completeness auto
termination
  by (relation "measure (\<lambda>(w :: world, remaining :: int). rx_size w)")
     (auto simp: pipe_output_rx_size dest: read_frame_consumes read_frame_write_consumes)

declare twopence_receive_file.simps [simp del]

text \<open>
  \<open>_twopence_read_results\<close>. \<open>output_chars\<close> is the loop that hands the payload to
  the sink byte by byte (\<open>err\<close>: to the standard error side). \<open>twopence_read_results_body\<close>
  is one pass through the body of \<open>while (state != 2)\<close>: \<open>Inl\<close> carries the locals
  (\<open>state\<close>, \<open>stdin_fd\<close>, \<open>*major\<close>, \<open>*minor\<close> and the array \<open>buffer\<close>) into the
  next pass, \<open>Inr\<close> is a \<open>return\<close>. \<open>buffer0\<close> is the array as the pass before left
  it; the frame read in this pass is written over its start.
\<close>

fun output_chars :: "bool \<Rightarrow> world \<Rightarrow> char list \<Rightarrow> bool \<times> world" where
  "output_chars err w [] = (True, w)"
| "output_chars err w (c # cs) =
     (case (if err then twopence_pipe_error w c else twopence_pipe_output w c) of
        (rc, w1) \<Rightarrow> if rc < 0 then (False, w1) else output_chars err w1 cs)"

definition twopence_read_results_body ::
  "world \<Rightarrow> int \<Rightarrow> int \<Rightarrow> int \<Rightarrow> int \<Rightarrow> char list \<Rightarrow>
   (world \<times> int \<times> int \<times> int \<times> int \<times> char list) + (int \<times> int \<times> int \<times> world)" where
  "twopence_read_results_body w state stdin_fd major minor buffer0 =
     (case twopence_pipe_recvbuf_both w stdin_fd BUFFER_SIZE of (rc, bytes, w1) \<Rightarrow>
        if rc \<noteq> 0 then Inr (TWOPENCE_RECEIVE_RESULTS_ERROR, major, minor, w1)
        else
          (let buffer = stored bytes buffer0;
               received = compute_length buffer
           in if buffer ! 0 = CHR ''E'' \<or> buffer ! 0 = CHR ''0'' then
                (let stdin_fd' = (if buffer ! 0 = CHR ''E'' then - 1 else stdin_fd)
                 in if state \<noteq> 0 then Inr (TWOPENCE_FORWARD_INPUT_ERROR, major, minor, w1)
                    else (case twopence_pipe_sendbuf w1 (take received buffer) of (sent, w2) \<Rightarrow>
                            if sent < 0 then Inr (TWOPENCE_FORWARD_INPUT_ERROR, major, minor, w2)
                            else Inl (w2, state, stdin_fd', major, minor, buffer)))
              else if buffer ! 0 = CHR ''1'' then
                (if state \<noteq> 0 then Inr (TWOPENCE_RECEIVE_RESULTS_ERROR, major, minor, w1)
                 else (case output_chars False w1 (take (received - 4) (drop 4 buffer)) of
                         (ok, w2) \<Rightarrow>
                           if \<not> ok then Inr (TWOPENCE_RECEIVE_RESULTS_ERROR, major, minor, w2)
                           else Inl (w2, state, stdin_fd, major, minor, buffer)))
              else if buffer ! 0 = CHR ''2'' then
                (if state \<noteq> 0 then Inr (TWOPENCE_RECEIVE_RESULTS_ERROR, major, minor, w1)
                 else (case output_chars True w1 (take (received - 4) (drop 4 buffer)) of
                         (ok, w2) \<Rightarrow>
                           if \<not> ok then Inr (TWOPENCE_RECEIVE_RESULTS_ERROR, major, minor, w2)
                           else Inl (w2, state, stdin_fd, major, minor, buffer)))
              else if buffer ! 0 = CHR ''M'' then
                (if state \<noteq> 0 then Inr (TWOPENCE_RECEIVE_RESULTS_ERROR, major, minor, w1)
                 else Inl (w1, 1, stdin_fd, sscanf_d (drop 4 buffer) major, minor, buffer))
              else if buffer ! 0 = CHR ''m'' then
                (if state \<noteq> 1 then Inr (TWOPENCE_RECEIVE_RESULTS_ERROR, major, minor, w1)
                 else Inl (w1, 2, stdin_fd, major, sscanf_d (drop 4 buffer) minor, buffer))
              else Inr (TWOPENCE_RECEIVE_RESULTS_ERROR, major, minor, w1)))"

lemma recvbuf_both_body_return:
  "twopence_pipe_recvbuf_both_body w stdin_fd sz = Inr (0, buffer, w1) \<Longrightarrow>
   length (poll_both w1) < length (poll_both w)"
proof -
  assume a: "twopence_pipe_recvbuf_both_body w stdin_fd sz = Inr (0, buffer, w1)"
  have frame: "length (poll_both (snd (snd (twopence_pipe_read_frame (w\<lparr>poll_both := ps\<rparr>) sz)))) = length ps"
    for ps
    using read_frame_keeps [of "w\<lparr>poll_both := ps\<rparr>" sz] by simp
  show ?thesis
  proof (cases "poll_both w")
    case Nil
    with a show ?thesis by (simp add: twopence_pipe_recvbuf_both_body_def twopence_errors)
  next
    case (Cons e ps)
    show ?thesis
    proof (cases e)
      case (P2Ready l s)
      with a Cons have "l" and "twopence_pipe_read_frame (w\<lparr>poll_both := ps\<rparr>) sz = (0, buffer, w1)"
        by (auto simp: twopence_pipe_recvbuf_both_body_def Let_def split: if_splits)
      with frame [of ps] Cons show ?thesis by simp
    qed (use a Cons in \<open>simp_all add: twopence_pipe_recvbuf_both_body_def twopence_errors\<close>)
  qed
qed

lemma recvbuf_both_consumes:
  "twopence_pipe_recvbuf_both w stdin_fd sz = (0, buffer, w1) \<Longrightarrow>
   length (poll_both w1) < length (poll_both w)"
proof (induction w stdin_fd sz rule: twopence_pipe_recvbuf_both.induct)
  case (1 w stdin_fd sz)
  show ?case
  proof (cases "twopence_pipe_recvbuf_both_body w stdin_fd sz")
    case (Inl w')
    with "1.prems" have "twopence_pipe_recvbuf_both w' stdin_fd sz = (0, buffer, w1)"
      by (simp add: twopence_pipe_recvbuf_both.simps [of w stdin_fd sz])
    from "1.IH" [OF Inl this] recvbuf_both_body_continue [OF Inl] show ?thesis
      by simp
  next
    case (Inr result)
    with "1.prems" have "twopence_pipe_recvbuf_both_body w stdin_fd sz = Inr (0, buffer, w1)"
      by (simp add: twopence_pipe_recvbuf_both.simps [of w stdin_fd sz])
    then show ?thesis by (rule recvbuf_both_body_return)
  qed
qed

lemma output_chars_poll_both: "poll_both (snd (output_chars err w cs)) = poll_both w"
proof (induction cs arbitrary: w)
  case Nil
  show ?case by simp
next
  case (Cons c cs)
  have "poll_both (snd (twopence_pipe_output w c)) = poll_both w"
    by (simp add: twopence_pipe_output_def twopence_sink_write_stdout_def emit_def split: option.splits nat.splits)
  moreover have "poll_both (snd (twopence_pipe_error w c)) = poll_both w"
    by (simp add: twopence_pipe_error_def twopence_sink_write_stderr_def emit_def split: option.splits nat.splits)
  ultimately show ?case
    using Cons.IH [of "snd (twopence_pipe_output w c)"] Cons.IH [of "snd (twopence_pipe_error w c)"]
    by (cases err; cases "twopence_pipe_output w c"; cases "twopence_pipe_error w c") auto
qed

lemma read_results_body_continue:
  assumes "twopence_read_results_body w state stdin_fd major minor buffer0 = Inl (w', rest)"
  shows "length (poll_both w') < length (poll_both w)"
proof -
  obtain rc buffer w1 where r: "twopence_pipe_recvbuf_both w stdin_fd BUFFER_SIZE = (rc, buffer, w1)"
    by (cases "twopence_pipe_recvbuf_both w stdin_fd BUFFER_SIZE") auto
  with assms have rc: "rc = 0"
    by (auto simp: twopence_read_results_body_def split: if_splits)
  from recvbuf_both_consumes r rc have less: "length (poll_both w1) < length (poll_both w)"
    by blast
  have "poll_both w' = poll_both w1"
    using assms r rc
      sendbuf_from_keeps [of w1 "take (compute_length (stored buffer buffer0)) (stored buffer buffer0)" 0]
      output_chars_poll_both [of False w1
        "take (compute_length (stored buffer buffer0) - 4) (drop 4 (stored buffer buffer0))"]
      output_chars_poll_both [of True w1
        "take (compute_length (stored buffer buffer0) - 4) (drop 4 (stored buffer buffer0))"]
    by (auto simp: twopence_read_results_body_def Let_def twopence_pipe_sendbuf_def split: if_splits prod.splits)
  with less show ?thesis by simp
qed

function twopence_read_results_loop ::
  "world \<Rightarrow> int \<Rightarrow> int \<Rightarrow> int \<Rightarrow> int \<Rightarrow> char list \<Rightarrow> int \<times> int \<times> int \<times> world" where
  "twopence_read_results_loop w state stdin_fd major minor buffer =
     (if state \<noteq> 2 then
        (case twopence_read_results_body w state stdin_fd major minor buffer of
           Inl (w', state', stdin_fd', major', minor', buffer') \<Rightarrow>
             twopence_read_results_loop w' state' stdin_fd' major' minor' buffer'
         | Inr result \<Rightarrow> result)
      else (0, major, minor, w))"
  by pat_completeness auto
termination
  by (relation "measure (\<lambda>(w :: world, state :: int, stdin_fd :: int, major :: int, minor :: int,
        buffer :: char list). length (poll_both w))")
     (auto dest: read_results_body_continue)

declare twopence_read_results_loop.simps [simp del]

text \<open>The entry: \<open>stdin_fd = 0\<close> and \<open>state = 0\<close>.\<close>

definition twopence_read_results :: "world \<Rightarrow> int \<Rightarrow> int \<Rightarrow> int \<times> int \<times> int \<times> world" where
  "twopence_read_results w major minor =
     twopence_read_results_loop w 0 0 major minor (results_stack w)"

section \<open>Top layer\<close>

text \<open>
  Modelled from the spec: \<open>twopence_tune_stdin\<close> is not among the sources. Section 9 of
  the spec: it changes a setting of the process-wide standard input, set on entry of a
  command and restored on exit. Its result is the world's \<open>tune_stdin_rc\<close>.
\<close>

definition twopence_tune_stdin :: "world \<Rightarrow> bool \<Rightarrow> int \<times> world" where
  "twopence_tune_stdin w blocking = (tune_stdin_rc w, emit (SysTuneStdin blocking) w)"

text \<open>
  \<open>__twopence_pipe_open_link\<close> calls the plug-in's open; \<open>close_link\<close> is
  \<open>close(link_fd)\<close>. An open that succeeds and every close are traced.
\<close>

definition twopence_pipe_open_link :: "world \<Rightarrow> int \<times> world" where
  "twopence_pipe_open_link w =
     (if link_open_rc w < 0 then (link_open_rc w, w)
      else (link_open_rc w, emit SysOpenLink w))"

definition close_link :: "world \<Rightarrow> world" where
  "close_link w = emit SysCloseLink w"

text \<open>The decimal digits that \<open>snprintf\<close> writes for \<open>%ld\<close> of a file size.\<close>

function dec :: "nat \<Rightarrow> char list" where
  "dec n = (if n < 10 then [char_of (48 + n)] else dec (n div 10) @ [char_of (48 + n mod 10)])"
  by pat_completeness auto
termination
  by (relation "measure id") auto

declare dec.simps [simp del]

text \<open>
  \<open>__twopence_pipe_command\<close>. The results are the return value, \<open>*major\<close>,
  \<open>*minor\<close> and the world. \<open>snprintf\<close> writes the text and its NUL; \<open>n\<close> is the
  length of the text.
\<close>

definition twopence_pipe_command ::
  "world \<Rightarrow> char list \<Rightarrow> char list \<Rightarrow> int \<times> int \<times> int \<times> world" where
  "twopence_pipe_command w username linux_command =
     (if twopence_invalid_username username then (TWOPENCE_PARAMETER_ERROR, 0, 0, w)
      else if c_str linux_command = [] then (TWOPENCE_PARAMETER_ERROR, 0, 0, w)
      else
        (let text = ''c...'' @ c_str username @ '' '' @ c_str linux_command;
             n = length text
         in if n \<ge> COMMAND_BUFFER_SIZE then (TWOPENCE_PARAMETER_ERROR, 0, 0, w)
            else
              (let command = store_length (n + 1) (text @ [CHR 0x00])
               in case twopence_tune_stdin w False of (tuned, w1) \<Rightarrow>
                    if tuned < 0 then (TWOPENCE_OPEN_SESSION_ERROR, 0, 0, w1)
                    else
                      (case twopence_pipe_open_link w1 of (link_fd, w2) \<Rightarrow>
                         if link_fd < 0 then
                           (TWOPENCE_OPEN_SESSION_ERROR, 0, 0, snd (twopence_tune_stdin w2 True))
                         else
                           (case twopence_pipe_sendbuf w2 command of (sent, w3) \<Rightarrow>
                              if sent \<noteq> int (n + 1) then
                                (TWOPENCE_SEND_COMMAND_ERROR, 0, 0,
                                 close_link (snd (twopence_tune_stdin w3 True)))
                              else
                                (case twopence_read_results w3 0 0 of (rc, major, minor, w4) \<Rightarrow>
                                   if rc < 0 then
                                     (TWOPENCE_RECEIVE_RESULTS_ERROR, major, minor,
                                      close_link (snd (twopence_tune_stdin w4 True)))
                                   else
                                     (0, major, minor,
                                      close_link (snd (twopence_tune_stdin w4 True)))))))))"

text \<open>
  \<open>_twopence_inject_virtio_serial\<close>. The results are the return value,
  \<open>*remote_rc\<close> and the world. The file size goes into the command as a \<open>long\<close> and
  into \<open>_twopence_send_file\<close> as an \<open>int\<close> of 32 bits.
\<close>

definition twopence_inject_virtio_serial ::
  "world \<Rightarrow> char list \<Rightarrow> char list \<Rightarrow> int \<times> int \<times> world" where
  "twopence_inject_virtio_serial w username remote_filename =
     (if twopence_invalid_username username then (TWOPENCE_PARAMETER_ERROR, 0, w)
      else
        (let w0 = emit SysFstat w;
             text = ''i...'' @ c_str username @ '' '' @ dec (file_st_size w) @ '' ''
                      @ c_str remote_filename;
             n = length text
         in if n \<ge> COMMAND_BUFFER_SIZE then (TWOPENCE_PARAMETER_ERROR, 0, w0)
            else
              (let command = store_length (n + 1) (text @ [CHR 0x00])
               in case twopence_pipe_open_link w0 of (link_fd, w1) \<Rightarrow>
                    if link_fd < 0 then (TWOPENCE_OPEN_SESSION_ERROR, 0, w1)
                    else
                      (case twopence_pipe_sendbuf w1 command of (sent, w2) \<Rightarrow>
                         if sent \<noteq> int (n + 1) then
                           (TWOPENCE_SEND_COMMAND_ERROR, 0, close_link w2)
                         else
                           (case twopence_read_major w2 0 of (rc, remote_rc, w3) \<Rightarrow>
                              if remote_rc \<noteq> 0 then
                                (TWOPENCE_SEND_FILE_ERROR, remote_rc, close_link w3)
                              else
                                (case twopence_send_file w3
                                        (sint (word_of_nat (file_st_size w) :: 32 word)) of
                                   (rc1, w4) \<Rightarrow>
                                     if rc1 < 0 then
                                       (TWOPENCE_SEND_FILE_ERROR, remote_rc, close_link w4)
                                     else
                                       (case twopence_read_minor w4 remote_rc of
                                          (rc2, remote_rc', w5) \<Rightarrow>
                                            if rc2 < 0 then
                                              (TWOPENCE_SEND_FILE_ERROR, remote_rc',
                                               close_link w5)
                                            else (0, remote_rc', close_link w5))))))))"

text \<open>
  \<open>_twopence_extract_virtio_serial\<close>. The local \<open>size\<close> is declared without a value
  and \<open>_twopence_read_size\<close> assigns it only for an \<open>'s'\<close> frame, so the value it
  holds before is an argument of the model, \<open>size0\<close>; \<open>size1\<close> is its value after
  \<open>_twopence_read_size\<close>.
\<close>

definition twopence_extract_virtio_serial ::
  "world \<Rightarrow> int \<Rightarrow> char list \<Rightarrow> char list \<Rightarrow> int \<times> int \<times> world" where
  "twopence_extract_virtio_serial w size0 username remote_filename =
     (if twopence_invalid_username username then (TWOPENCE_PARAMETER_ERROR, 0, w)
      else
        (let text = ''e...'' @ c_str username @ '' '' @ c_str remote_filename;
             n = length text
         in if n \<ge> COMMAND_BUFFER_SIZE then (TWOPENCE_PARAMETER_ERROR, 0, w)
            else
              (let command = store_length (n + 1) (text @ [CHR 0x00])
               in case twopence_pipe_open_link w of (link_fd, w1) \<Rightarrow>
                    if link_fd < 0 then (TWOPENCE_OPEN_SESSION_ERROR, 0, w1)
                    else
                      (case twopence_pipe_sendbuf w1 command of (sent, w2) \<Rightarrow>
                         if sent \<noteq> int (n + 1) then
                           (TWOPENCE_SEND_COMMAND_ERROR, 0, close_link w2)
                         else
                           (case twopence_read_size w2 size0 0 of (rc, size1, remote_rc, w3) \<Rightarrow>
                              if rc < 0 then
                                (TWOPENCE_RECEIVE_FILE_ERROR, remote_rc, close_link w3)
                              else if size1 \<ge> 0 then
                                (case twopence_receive_file w3 size1 of (rc1, w4) \<Rightarrow>
                                   if rc1 < 0 then (TWOPENCE_RECEIVE_FILE_ERROR, remote_rc, w4)
                                   else (0, remote_rc, close_link w4))
                              else (0, remote_rc, close_link w3))))))"

section \<open>Public interface\<close>

text \<open>
  \<open>twopence_pipe_inject_file\<close> and \<open>twopence_pipe_extract_file\<close>. \<open>remote_rc0\<close> is
  the caller's \<open>*remote_rc\<close> at the call; \<open>file_open\<close> of the world is the answer of
  \<open>open\<close> (or \<open>creat\<close>) for the local file. The call of \<open>twopence_sink_init\<close>
  chooses the sink from \<open>dots\<close>; here the sink is the one the world has.
\<close>

definition twopence_pipe_inject_file ::
  "world \<Rightarrow> char list \<Rightarrow> char list \<Rightarrow> int \<Rightarrow> int \<times> int \<times> world" where
  "twopence_pipe_inject_file w username remote_filename remote_rc0 =
     (case file_open w of
        OpenNameTooLong \<Rightarrow> (TWOPENCE_PARAMETER_ERROR, remote_rc0, w)
      | OpenFailed \<Rightarrow> (TWOPENCE_LOCAL_FILE_ERROR, remote_rc0, w)
      | OpenOk \<Rightarrow>
          (case twopence_inject_virtio_serial (emit SysOpenFile w) username remote_filename of
             (rc, remote_rc, w1) \<Rightarrow>
               ((if rc = 0 \<and> remote_rc \<noteq> 0 then TWOPENCE_REMOTE_FILE_ERROR else rc),
                remote_rc, emit SysCloseFile w1)))"

definition twopence_pipe_extract_file ::
  "world \<Rightarrow> int \<Rightarrow> char list \<Rightarrow> char list \<Rightarrow> int \<Rightarrow> int \<times> int \<times> world" where
  "twopence_pipe_extract_file w size0 username remote_filename remote_rc0 =
     (case file_open w of
        OpenNameTooLong \<Rightarrow> (TWOPENCE_PARAMETER_ERROR, remote_rc0, w)
      | OpenFailed \<Rightarrow> (TWOPENCE_LOCAL_FILE_ERROR, remote_rc0, w)
      | OpenOk \<Rightarrow>
          (case twopence_extract_virtio_serial (emit SysOpenFile w) size0 username remote_filename of
             (rc, remote_rc, w1) \<Rightarrow>
               ((if rc = 0 \<and> remote_rc \<noteq> 0 then TWOPENCE_REMOTE_FILE_ERROR else rc),
                remote_rc, emit SysCloseFile w1)))"

section \<open>Transactions (library/transaction.c)\<close>

text \<open>
  Of \<open>struct twopence_transaction\<close> the status functions use the protocol state (its
  transaction id), the flags \<open>major_sent\<close>, \<open>minor_sent\<close> and \<open>done\<close>, and the
  transmit queue of \<open>client_sock\<close>, which is the list of packets handed to
  \<open>twopence_sock_queue_xmit\<close>, oldest first.

  Modelled from the spec: the packet builders (\<open>twopence_protocol_build_uint_packet\<close>,
  \<open>twopence_protocol_build_uint_packet_ps\<close>, \<open>twopence_protocol_command_buffer_new\<close>,
  \<open>twopence_protocol_push_header_ps\<close>) are not among the sources. Section 6 of the spec: a
  packet has a one-byte type, \<open>'M'\<close>, \<open>'m'\<close> and \<open>'T'\<close> are the major status, the
  minor status and the timeout notification, a status packet carries an integer, and the
  header of the newer shape carries the transaction id. A builder returns a buffer with a
  head (\<open>Some\<close>).
\<close>

record packet =
  ptype :: char
  pxid :: "nat option"
  pvalue :: "32 word option"

definition TWOPENCE_PROTO_TYPE_MAJOR :: char where
  "TWOPENCE_PROTO_TYPE_MAJOR = CHR ''M''"

definition TWOPENCE_PROTO_TYPE_MINOR :: char where
  "TWOPENCE_PROTO_TYPE_MINOR = CHR ''m''"

definition TWOPENCE_PROTO_TYPE_TIMEOUT :: char where
  "TWOPENCE_PROTO_TYPE_TIMEOUT = CHR ''T''"

definition build_uint_packet :: "char \<Rightarrow> 32 word \<Rightarrow> packet option" where
  "build_uint_packet type val = Some \<lparr>ptype = type, pxid = None, pvalue = Some val\<rparr>"

definition build_uint_packet_ps :: "nat \<Rightarrow> char \<Rightarrow> 32 word \<Rightarrow> packet option" where
  "build_uint_packet_ps xid type val = Some \<lparr>ptype = type, pxid = Some xid, pvalue = Some val\<rparr>"

definition push_header_ps :: "nat \<Rightarrow> char \<Rightarrow> packet option" where
  "push_header_ps xid type = Some \<lparr>ptype = type, pxid = Some xid, pvalue = None\<rparr>"

record transaction =
  ps_xid :: nat
  major_sent :: bool
  minor_sent :: bool
  trans_done :: bool
  client_sock :: "packet list"

text \<open>\<open>twopence_transaction_new\<close>: \<open>calloc\<close> clears the flags.\<close>

definition twopence_transaction_new :: "packet list \<Rightarrow> nat \<Rightarrow> transaction" where
  "twopence_transaction_new client xid =
     \<lparr>ps_xid = xid, major_sent = False, minor_sent = False, trans_done = False,
      client_sock = client\<rparr>"

definition twopence_transaction_send_client :: "transaction \<Rightarrow> packet option \<Rightarrow> transaction" where
  "twopence_transaction_send_client t bp =
     (case bp of
        None \<Rightarrow> t
      | Some h \<Rightarrow> t\<lparr>client_sock := client_sock t @ [h]\<rparr>)"

text \<open>
  A failed \<open>assert\<close> and \<open>abort()\<close> end the process: the result is \<open>None\<close>.
\<close>

definition twopence_transaction_send_major :: "transaction \<Rightarrow> 32 word \<Rightarrow> transaction option" where
  "twopence_transaction_send_major t code =
     (if major_sent t then None
      else Some ((twopence_transaction_send_client t
                    (build_uint_packet_ps (ps_xid t) TWOPENCE_PROTO_TYPE_MAJOR code))
                 \<lparr>major_sent := True\<rparr>))"

definition twopence_transaction_send_minor :: "transaction \<Rightarrow> 32 word \<Rightarrow> transaction option" where
  "twopence_transaction_send_minor t code =
     (if minor_sent t then None
      else Some ((twopence_transaction_send_client t
                    (build_uint_packet_ps (ps_xid t) TWOPENCE_PROTO_TYPE_MINOR code))
                 \<lparr>minor_sent := True\<rparr>))"

definition twopence_transaction_send_status ::
  "transaction \<Rightarrow> 32 word \<Rightarrow> 32 word \<Rightarrow> transaction option" where
  "twopence_transaction_send_status t st_major st_minor =
     (if trans_done t then Some t
      else Some ((twopence_transaction_send_client
                    (twopence_transaction_send_client t
                       (build_uint_packet TWOPENCE_PROTO_TYPE_MAJOR st_major))
                    (build_uint_packet TWOPENCE_PROTO_TYPE_MINOR st_minor))
                 \<lparr>trans_done := True\<rparr>))"

definition twopence_transaction_fail :: "transaction \<Rightarrow> 32 word \<Rightarrow> transaction option" where
  "twopence_transaction_fail t code =
     (let t = t\<lparr>trans_done := True\<rparr>
      in if \<not> major_sent t then twopence_transaction_send_major t code
         else if \<not> minor_sent t then twopence_transaction_send_minor t code
         else None)"

definition twopence_transaction_fail2 ::
  "transaction \<Rightarrow> 32 word \<Rightarrow> 32 word \<Rightarrow> transaction option" where
  "twopence_transaction_fail2 t major minor =
     (case twopence_transaction_send_major t major of
        None \<Rightarrow> None
      | Some t1 \<Rightarrow>
          (case twopence_transaction_send_minor t1 minor of
             None \<Rightarrow> None
           | Some t2 \<Rightarrow> Some (t2\<lparr>trans_done := True\<rparr>)))"

definition twopence_transaction_send_timeout :: "transaction \<Rightarrow> transaction option" where
  "twopence_transaction_send_timeout t =
     Some ((twopence_transaction_send_client t
              (push_header_ps (ps_xid t) TWOPENCE_PROTO_TYPE_TIMEOUT))
           \<lparr>trans_done := True\<rparr>)"

text \<open>
  A life of a transaction is a list of calls, applied to a new transaction in order; it
  ends where an assertion fails.
\<close>

datatype trans_call =
    SendMajor "32 word"
  | SendMinor "32 word"
  | SendStatus "32 word" "32 word"
  | Fail "32 word"
  | Fail2 "32 word" "32 word"
  | SendTimeout

fun call :: "trans_call \<Rightarrow> transaction \<Rightarrow> transaction option" where
  "call (SendMajor c) t = twopence_transaction_send_major t c"
| "call (SendMinor c) t = twopence_transaction_send_minor t c"
| "call (SendStatus a b) t = twopence_transaction_send_status t a b"
| "call (Fail c) t = twopence_transaction_fail t c"
| "call (Fail2 a b) t = twopence_transaction_fail2 t a b"
| "call SendTimeout t = twopence_transaction_send_timeout t"

fun calls :: "trans_call list \<Rightarrow> transaction \<Rightarrow> transaction option" where
  "calls [] t = Some t"
| "calls (c # cs) t = (case call c t of None \<Rightarrow> None | Some t' \<Rightarrow> calls cs t')"

text \<open>
  \<open>status_sent\<close>: the types of the status packets queued, in order. \<open>keeps_flags\<close>:
  the calls that go through \<open>twopence_transaction_send_major\<close> and
  \<open>twopence_transaction_send_minor\<close>, which set \<open>major_sent\<close> and \<open>minor_sent\<close>.
\<close>

definition status_sent :: "transaction \<Rightarrow> char list" where
  "status_sent t =
     filter (\<lambda>c. c = TWOPENCE_PROTO_TYPE_MAJOR \<or> c = TWOPENCE_PROTO_TYPE_MINOR)
       (map ptype (client_sock t))"

fun keeps_flags :: "trans_call \<Rightarrow> bool" where
  "keeps_flags (SendMajor c) = True"
| "keeps_flags (SendMinor c) = True"
| "keeps_flags (Fail c) = True"
| "keeps_flags (Fail2 a b) = True"
| "keeps_flags _ = False"

fun minor_first :: "trans_call list \<Rightarrow> bool" where
  "minor_first (SendMinor c # cs) = True"
| "minor_first _ = False"

section \<open>Worlds for concrete runs\<close>

text \<open>
  \<open>idle_world\<close>: the link opens as descriptor 3 and takes every byte, the peer sends
  nothing, the local file opens and is empty, the sink has no bound, and the stack
  holds NUL bytes only (\<open>zero_buffer\<close>). \<open>frame t p\<close> is the frame of type \<open>t\<close> with
  payload \<open>p\<close> as the peer writes it (header byte 1 is 0).
\<close>

definition zero_buffer :: "char list" where
  "zero_buffer = replicate BUFFER_SIZE (CHR 0x00)"

definition idle_world :: world where
  "idle_world =
     \<lparr>link_open_rc = 3, link_rx = [], link_tx = [], poll_both = [], stdin_rd = [],
      tune_stdin_rc = 0, file_open = OpenOk, file_st_size = 0, file_rd = [], file_wr = [],
      stdout_room = None, stderr_room = None, results_stack = zero_buffer,
      major_stack = zero_buffer, minor_stack = zero_buffer, size_stack = zero_buffer,
      send_pad = CHR 0x00, trace = []\<rparr>"

definition frame :: "char \<Rightarrow> char list \<Rightarrow> char list" where
  "frame t p = store_length (length p + 4) (t # CHR 0x00 # CHR 0x00 # CHR 0x00 # p)"

section \<open>Facts about the client\<close>

lemmas world_calls =
  file_read_def file_write_def stdin_read_def emit_def twopence_pipe_output_def twopence_pipe_error_def
  twopence_sink_write_stdout_def twopence_sink_write_stderr_def twopence_pipe_open_link_def close_link_def twopence_tune_stdin_def

lemmas observers = link_sent_def file_written_def file_reads_def link_closed_def

text \<open>
  C9. Injecting a file of length zero: \<open>_twopence_send_file\<close> called with
  \<open>remaining = 0\<close> returns 0, calls read(2) on the file not once, gives the link no
  byte, and leaves both scripts as they were; all it does is hand a newline to the sink.
\<close>

theorem send_file_nothing_to_send:
  "fst (twopence_send_file w 0) = 0 \<and>
   file_reads (snd (twopence_send_file w 0)) = file_reads w \<and>
   file_rd (snd (twopence_send_file w 0)) = file_rd w \<and>
   link_sent (snd (twopence_send_file w 0)) = link_sent w \<and>
   link_tx (snd (twopence_send_file w 0)) = link_tx w \<and>
   snd (twopence_send_file w 0) = snd (twopence_pipe_output w (CHR 0x0A))"
  by (simp add: twopence_send_file.simps [of w 0] world_calls observers split: option.splits nat.splits)

theorem send_file_nothing_to_send_witness:
  "fst (twopence_send_file (idle_world\<lparr>file_rd := [RdData ''abc'']\<rparr>) 0) = 0 \<and>
   file_rd (snd (twopence_send_file (idle_world\<lparr>file_rd := [RdData ''abc'']\<rparr>) 0)) = [RdData ''abc''] \<and>
   trace (snd (twopence_send_file (idle_world\<lparr>file_rd := [RdData ''abc'']\<rparr>) 0)) = [SinkStdout (CHR 0x0A)]"
  using send_file_nothing_to_send [of "idle_world\<lparr>file_rd := [RdData ''abc'']\<rparr>"]
  by (simp add: idle_world_def world_calls)

text \<open>
  C10. While a file is received, a well-formed \<open>'d'\<close> frame whose announced length
  is exactly 4 (no payload) is accepted and changes nothing: the loop goes on with the same
  number of bytes still expected, in the world left by reading the frame, where the bytes
  written to the local file and the answers of write(2) still to come are the same.
\<close>

theorem receive_file_empty_data_frame:
  assumes "0 < remaining"
    and "twopence_pipe_read_frame w BUFFER_SIZE = (0, buffer, w1)"
    and "buffer ! 0 = CHR ''d''"
    and "compute_length buffer = 4"
  shows "twopence_receive_file w remaining = twopence_receive_file w1 remaining \<and>
         file_written w1 = file_written w \<and> file_wr w1 = file_wr w"
proof -
  have "file_written w1 = file_written w \<and> file_wr w1 = file_wr w"
    using read_frame_keeps [of w BUFFER_SIZE] assms(2) by simp
  moreover have "twopence_receive_file w remaining = twopence_receive_file w1 remaining"
    using assms by (simp add: twopence_receive_file.simps [of w remaining])
  ultimately show ?thesis by simp
qed

theorem receive_file_empty_data_frame_witness:
  "(0 :: int) < 1 \<and>
   twopence_pipe_read_frame (idle_world\<lparr>link_rx := [RxData (frame (CHR ''d'') []), RxData (frame (CHR ''d'') ''x'')]\<rparr>) BUFFER_SIZE
     = (0, frame (CHR ''d'') [],
        idle_world\<lparr>link_rx := [RxData (frame (CHR ''d'') ''x'')],
                    trace := [SysRecvLink (frame (CHR ''d'') [])]\<rparr>) \<and>
   frame (CHR ''d'') [] ! 0 = CHR ''d'' \<and>
   compute_length (frame (CHR ''d'') []) = 4 \<and>
   twopence_receive_file (idle_world\<lparr>link_rx := [RxData (frame (CHR ''d'') []), RxData (frame (CHR ''d'') ''x'')]\<rparr>) 1
     = twopence_receive_file (idle_world\<lparr>link_rx := [RxData (frame (CHR ''d'') ''x'')],
                    trace := [SysRecvLink (frame (CHR ''d'') [])]\<rparr>) 1 \<and>
   file_written (idle_world\<lparr>link_rx := [RxData (frame (CHR ''d'') ''x'')],
                    trace := [SysRecvLink (frame (CHR ''d'') [])]\<rparr>) = []"
proof -
  let ?w = "idle_world\<lparr>link_rx := [RxData (frame (CHR ''d'') []), RxData (frame (CHR ''d'') ''x'')]\<rparr>"
  let ?w1 = "idle_world\<lparr>link_rx := [RxData (frame (CHR ''d'') ''x'')],
                    trace := [SysRecvLink (frame (CHR ''d'') [])]\<rparr>"
  have len: "compute_length (frame (CHR ''d'') []) = 4"
    by (simp add: frame_def store_length_def compute_length_def)
  have hd: "frame (CHR ''d'') [] ! 0 = CHR ''d''"
    by (simp add: frame_def store_length_def)
  have rf: "twopence_pipe_read_frame ?w BUFFER_SIZE = (0, frame (CHR ''d'') [], ?w1)"
    by (simp add: twopence_pipe_read_frame_def twopence_pipe_recvbuf.simps idle_world_def frame_def store_length_def
        compute_length_def emit_def BUFFER_SIZE_def Let_def)
  have pos: "(0 :: int) < 1" by simp
  from receive_file_empty_data_frame [OF pos rf hd len] rf hd len show ?thesis
    by (simp add: file_written_def idle_world_def)
qed

text \<open>
  C1, as amended. Once the four header bytes are in, \<open>__twopence_pipe_read_frame\<close>
  returns the protocol error when the announced length is below 4 or above the capacity
  \<open>sz\<close> of the buffer, in the world as the header left it: nothing more is read from
  the link. For a length from 4 to \<open>sz\<close>, \<open>sz\<close> included, the result is that of
  reading the \<open>length - 4\<close> payload bytes.
\<close>

theorem read_frame_checks_length:
  assumes "twopence_pipe_recvbuf w 4 [] = (rc, header, w1)" and "0 \<le> rc"
  shows "(compute_length header < 4 \<or> sz < compute_length header \<longrightarrow>
            twopence_pipe_read_frame w sz = (TWOPENCE_PROTOCOL_ERROR, header, w1)) \<and>
         (4 \<le> compute_length header \<and> compute_length header \<le> sz \<longrightarrow>
            twopence_pipe_read_frame w sz =
              (case twopence_pipe_recvbuf w1 (compute_length header - 4) [] of
                 (rc', payload, w2) \<Rightarrow> (if rc' < 0 then rc' else 0, header @ payload, w2)))"
  using assms by (auto simp: twopence_pipe_read_frame_def split: prod.splits)

theorem read_frame_checks_length_witness:
  "twopence_pipe_recvbuf (idle_world\<lparr>link_rx := [RxData [CHR ''d'', CHR 0x00, CHR 0x00, CHR 0x03, CHR ''x'']]\<rparr>) 4 []
     = (4, [CHR ''d'', CHR 0x00, CHR 0x00, CHR 0x03],
        idle_world\<lparr>link_rx := [RxData ''x''],
                    trace := [SysRecvLink [CHR ''d'', CHR 0x00, CHR 0x00, CHR 0x03]]\<rparr>) \<and>
   compute_length [CHR ''d'', CHR 0x00, CHR 0x00, CHR 0x03] = 3 \<and>
   twopence_pipe_read_frame (idle_world\<lparr>link_rx := [RxData [CHR ''d'', CHR 0x00, CHR 0x00, CHR 0x03, CHR ''x'']]\<rparr>) BUFFER_SIZE
     = (TWOPENCE_PROTOCOL_ERROR, [CHR ''d'', CHR 0x00, CHR 0x00, CHR 0x03],
        idle_world\<lparr>link_rx := [RxData ''x''],
                    trace := [SysRecvLink [CHR ''d'', CHR 0x00, CHR 0x00, CHR 0x03]]\<rparr>) \<and>
   twopence_pipe_recvbuf (idle_world\<lparr>link_rx := [RxData (frame (CHR ''d'') ''x'')]\<rparr>) 4 []
     = (4, [CHR ''d'', CHR 0x00, CHR 0x00, CHR 0x05],
        idle_world\<lparr>link_rx := [RxData ''x''],
                    trace := [SysRecvLink [CHR ''d'', CHR 0x00, CHR 0x00, CHR 0x05]]\<rparr>) \<and>
   twopence_pipe_read_frame (idle_world\<lparr>link_rx := [RxData (frame (CHR ''d'') ''x'')]\<rparr>) BUFFER_SIZE
     = (0, [CHR ''d'', CHR 0x00, CHR 0x00, CHR 0x05, CHR ''x''],
        idle_world\<lparr>trace := [SysRecvLink [CHR ''d'', CHR 0x00, CHR 0x00, CHR 0x05],
                              SysRecvLink ''x'']\<rparr>)"
proof -
  let ?short = "idle_world\<lparr>link_rx := [RxData [CHR ''d'', CHR 0x00, CHR 0x00, CHR 0x03, CHR ''x'']]\<rparr>"
  let ?good = "idle_world\<lparr>link_rx := [RxData (frame (CHR ''d'') ''x'')]\<rparr>"
  have h1: "twopence_pipe_recvbuf ?short 4 []
     = (4, [CHR ''d'', CHR 0x00, CHR 0x00, CHR 0x03],
        idle_world\<lparr>link_rx := [RxData ''x''],
                    trace := [SysRecvLink [CHR ''d'', CHR 0x00, CHR 0x00, CHR 0x03]]\<rparr>)"
    by (simp add: twopence_pipe_recvbuf.simps idle_world_def emit_def Let_def)
  have h2: "twopence_pipe_recvbuf ?good 4 []
     = (4, [CHR ''d'', CHR 0x00, CHR 0x00, CHR 0x05],
        idle_world\<lparr>link_rx := [RxData ''x''],
                    trace := [SysRecvLink [CHR ''d'', CHR 0x00, CHR 0x00, CHR 0x05]]\<rparr>)"
    by (simp add: twopence_pipe_recvbuf.simps idle_world_def emit_def Let_def frame_def store_length_def char_of_eq_iff)
  have l1: "compute_length [CHR ''d'', CHR 0x00, CHR 0x00, CHR 0x03] = 3"
    by (simp add: compute_length_def)
  have l2: "compute_length [CHR ''d'', CHR 0x00, CHR 0x00, CHR 0x05] = 5"
    by (simp add: compute_length_def)
  have p: "twopence_pipe_recvbuf (idle_world\<lparr>link_rx := [RxData ''x''],
                    trace := [SysRecvLink [CHR ''d'', CHR 0x00, CHR 0x00, CHR 0x05]]\<rparr>) 1 []
     = (1, ''x'', idle_world\<lparr>trace := [SysRecvLink [CHR ''d'', CHR 0x00, CHR 0x00, CHR 0x05],
                              SysRecvLink ''x'']\<rparr>)"
    by (simp add: twopence_pipe_recvbuf.simps idle_world_def emit_def Let_def)
  from read_frame_checks_length [OF h1, of BUFFER_SIZE] read_frame_checks_length [OF h2, of BUFFER_SIZE]
    h1 h2 l1 l2 p
  show ?thesis
    by (simp add: BUFFER_SIZE_def)
qed

text \<open>
  The claim as stated also rejects an announced length of exactly 32768, the size of the
  buffer every caller passes. The length test is \<open>length > size\<close>: a frame of 32768
  bytes fills the buffer and is accepted.
\<close>

theorem read_frame_accepts_full_buffer:
  "BUFFER_SIZE = 32768 \<and>
   compute_length [CHR ''d'', CHR 0x00, CHR 0x80, CHR 0x00] = 32768 \<and>
   twopence_pipe_read_frame
     (idle_world\<lparr>link_rx := [RxData ([CHR ''d'', CHR 0x00, CHR 0x80, CHR 0x00]
                                        @ replicate 32764 (CHR ''x''))]\<rparr>) BUFFER_SIZE
   = (0, [CHR ''d'', CHR 0x00, CHR 0x80, CHR 0x00] @ replicate 32764 (CHR ''x''),
      idle_world\<lparr>trace := [SysRecvLink [CHR ''d'', CHR 0x00, CHR 0x80, CHR 0x00],
                            SysRecvLink (replicate 32764 (CHR ''x''))]\<rparr>)"
  by (simp add: twopence_pipe_read_frame_def twopence_pipe_recvbuf.simps idle_world_def compute_length_def emit_def
      BUFFER_SIZE_def Let_def)

text \<open>
  The accepted characters, in the words of the spec (section 4.5): \<open>[A-Za-z0-9_]\<close>.
\<close>

definition username_char :: "char \<Rightarrow> bool" where
  "username_char c \<longleftrightarrow>
     (CHR ''A'' \<le> c \<and> c \<le> CHR ''Z'') \<or> (CHR ''a'' \<le> c \<and> c \<le> CHR ''z'') \<or>
     (CHR ''0'' \<le> c \<and> c \<le> CHR ''9'') \<or> c = CHR ''_''"

lemma invalid_username_step:
  "twopence_invalid_username (c # p) =
     (if c = CHR 0x00 then False else if username_char c then twopence_invalid_username p else True)"
  by (simp add: username_char_def)

lemma invalid_username_iff:
  "twopence_invalid_username u \<longleftrightarrow> (\<exists>c \<in> set (c_str u). \<not> username_char c)"
proof (induction u)
  case Nil
  show ?case by (simp add: c_str_def)
next
  case (Cons c p)
  show ?case
    using Cons.IH by (simp only: invalid_username_step c_str_def takeWhile.simps) auto
qed

lemmas char_order = less_eq_char_def less_char_def

text \<open>Steps of concrete runs.\<close>

lemma emit_keeps:
  "link_open_rc (emit e w) = link_open_rc w" "link_rx (emit e w) = link_rx w"
  "link_tx (emit e w) = link_tx w" "poll_both (emit e w) = poll_both w"
  "stdin_rd (emit e w) = stdin_rd w" "tune_stdin_rc (emit e w) = tune_stdin_rc w"
  "file_open (emit e w) = file_open w" "file_st_size (emit e w) = file_st_size w"
  "file_rd (emit e w) = file_rd w" "file_wr (emit e w) = file_wr w"
  "stdout_room (emit e w) = stdout_room w" "stderr_room (emit e w) = stderr_room w"
  "results_stack (emit e w) = results_stack w" "major_stack (emit e w) = major_stack w"
  "minor_stack (emit e w) = minor_stack w" "size_stack (emit e w) = size_stack w"
  "send_pad (emit e w) = send_pad w" "trace (emit e w) = trace w @ [e]"
  by (simp_all add: emit_def)

lemma sendbuf_link_ready:
  "link_tx w = [] \<Longrightarrow> buffer \<noteq> [] \<Longrightarrow>
   twopence_pipe_sendbuf w buffer = (int (length buffer), emit (SysSendLink buffer) w)"
  by (simp add: twopence_pipe_sendbuf_def twopence_pipe_sendbuf_from.simps [of w buffer 0]
      twopence_pipe_sendbuf_from.simps [of _ buffer "length buffer"])

lemma recvbuf_both_link_ready:
  "poll_both w = P2Ready True s # ps \<Longrightarrow>
   twopence_pipe_recvbuf_both w stdin_fd sz = twopence_pipe_read_frame (w\<lparr>poll_both := ps\<rparr>) sz"
  by (simp add: twopence_pipe_recvbuf_both.simps [of w stdin_fd sz] twopence_pipe_recvbuf_both_body_def)

lemma read_results_major:
  "twopence_pipe_recvbuf_both w stdin_fd BUFFER_SIZE = (0, bytes, w1) \<Longrightarrow>
   stored bytes buffer0 ! 0 = CHR ''M'' \<Longrightarrow>
   twopence_read_results_loop w 0 stdin_fd major minor buffer0 =
     twopence_read_results_loop w1 1 stdin_fd (sscanf_d (drop 4 (stored bytes buffer0)) major) minor
       (stored bytes buffer0)"
  by (simp add: twopence_read_results_loop.simps [of w 0] twopence_read_results_body_def Let_def)

lemma read_results_minor:
  "twopence_pipe_recvbuf_both w stdin_fd BUFFER_SIZE = (0, bytes, w1) \<Longrightarrow>
   stored bytes buffer0 ! 0 = CHR ''m'' \<Longrightarrow>
   twopence_read_results_loop w 1 stdin_fd major minor buffer0 =
     (0, major, sscanf_d (drop 4 (stored bytes buffer0)) minor, w1)"
  by (simp add: twopence_read_results_loop.simps [of w 1] twopence_read_results_loop.simps [of w1 2]
      twopence_read_results_body_def Let_def)

lemma frame_facts:
  "4 < length (frame t (c # p))"
  "length (frame t p) = length p + 4"
  "frame t p ! 0 = t"
  "drop 4 (frame t p) = p"
  by (simp_all add: frame_def store_length_def)

lemma stored_frame:
  "stored (frame t p) stack ! 0 = t"
  "drop 4 (stored (frame t p) stack) = p @ drop (length p + 4) stack"
  using frame_facts(2-4) [of t p] by (simp_all add: stored_def nth_append)

lemma c_str_nul:
  "CHR 0x00 \<notin> set s \<Longrightarrow> c_str (s @ CHR 0x00 # rest) = s"
  unfolding c_str_def by (induction s) auto

lemma c_str_no_nul:
  "CHR 0x00 \<notin> set s \<Longrightarrow> c_str s = s"
  unfolding c_str_def by (induction s) auto

lemma sscanf_d_nul:
  "CHR 0x00 \<notin> set s \<Longrightarrow> sscanf_d (s @ CHR 0x00 # rest) old = sscanf_d s old"
  by (simp add: sscanf_d_def c_str_nul c_str_no_nul)

lemma zero_buffer_drop:
  "n < BUFFER_SIZE \<Longrightarrow> drop n zero_buffer = CHR 0x00 # drop (Suc n) zero_buffer"
  using Suc_diff_Suc [of n BUFFER_SIZE] by (simp add: zero_buffer_def flip: replicate_Suc)

lemma stored_stored:
  "length b \<le> length a \<Longrightarrow> stored a (stored b stack) = stored a stack"
  by (simp add: stored_def)

lemma store_int_small:
  "- (2 ^ 31) \<le> v \<Longrightarrow> v < 2 ^ 31 \<Longrightarrow> store_int v = v"
  by (simp add: store_int_def strtol_sat_def sint_sbintrunc' signed_take_bit_int_eq_self)

lemma parse_zero_stack:
  "length p + 4 < BUFFER_SIZE \<Longrightarrow> CHR 0x00 \<notin> set p \<Longrightarrow>
   sscanf_d (drop 4 (stored (frame t p) zero_buffer)) old = sscanf_d p old"
  by (simp add: stored_frame zero_buffer_drop [of "length p + 4"] sscanf_d_nul)

lemma sscanf_d_digit:
  "sscanf_d ''0'' old = 0" "sscanf_d ''2'' old = 2"
  by (simp_all add: sscanf_d_def c_str_def isspace_c_def scan_unsigned_def isdigit_c_def char_order
      store_int_small)

text \<open>
  \<open>served_world\<close>: the peer answers a command with major 0 and minor 0, each found
  by the two-descriptor poll.
\<close>

definition served_world :: world where
  "served_world =
     idle_world\<lparr>poll_both := [P2Ready True False, P2Ready True False],
                 link_rx := [RxData (frame (CHR ''M'') ''0''), RxData (frame (CHR ''m'') ''0'')]\<rparr>"

text \<open>
  C2, as amended. A user name passes \<open>_twopence_invalid_username\<close> if and only if each
  of its characters (up to the NUL that ends the C string) is in \<open>[A-Za-z0-9_]\<close>; the
  loop never runs for the empty name, which therefore passes. For a name with a
  character outside the set, command, inject and extract return the parameter error, and
  so do the public inject and extract once the local file is open.
\<close>

theorem username_check:
  "(twopence_invalid_username u \<longleftrightarrow> \<not> (\<forall>c \<in> set (c_str u). username_char c)) \<and>
   (twopence_invalid_username u \<longrightarrow>
      fst (twopence_pipe_command w u linux_command) = TWOPENCE_PARAMETER_ERROR \<and>
      fst (twopence_inject_virtio_serial w u remote_filename) = TWOPENCE_PARAMETER_ERROR \<and>
      fst (twopence_extract_virtio_serial w size0 u remote_filename) = TWOPENCE_PARAMETER_ERROR \<and>
      (file_open w = OpenOk \<longrightarrow>
         fst (twopence_pipe_inject_file w u remote_filename remote_rc0) = TWOPENCE_PARAMETER_ERROR \<and>
         fst (twopence_pipe_extract_file w size0 u remote_filename remote_rc0) = TWOPENCE_PARAMETER_ERROR))"
proof -
  have cmd: "fst (twopence_pipe_command w u linux_command) = TWOPENCE_PARAMETER_ERROR"
    if "twopence_invalid_username u"
    using that by (simp add: twopence_pipe_command_def)
  have inj: "twopence_inject_virtio_serial w' u remote_filename = (TWOPENCE_PARAMETER_ERROR, 0, w')"
    if "twopence_invalid_username u" for w'
    using that by (simp add: twopence_inject_virtio_serial_def)
  have ext: "twopence_extract_virtio_serial w' size0 u remote_filename = (TWOPENCE_PARAMETER_ERROR, 0, w')"
    if "twopence_invalid_username u" for w'
    using that by (simp add: twopence_extract_virtio_serial_def)
  have inj_file: "fst (twopence_pipe_inject_file w u remote_filename remote_rc0) = TWOPENCE_PARAMETER_ERROR"
    if "twopence_invalid_username u" "file_open w = OpenOk"
    using that by (simp add: twopence_pipe_inject_file_def inj twopence_errors)
  have ext_file: "fst (twopence_pipe_extract_file w size0 u remote_filename remote_rc0) = TWOPENCE_PARAMETER_ERROR"
    if "twopence_invalid_username u" "file_open w = OpenOk"
    using that by (simp add: twopence_pipe_extract_file_def ext twopence_errors)
  show ?thesis
    using invalid_username_iff [of u] cmd inj [of w] ext [of w] inj_file ext_file
    by simp
qed

theorem username_check_witness:
  "twopence_invalid_username ''a-b'' \<and> \<not> username_char (CHR ''-'') \<and>
   fst (twopence_pipe_command idle_world ''a-b'' ''ls'') = TWOPENCE_PARAMETER_ERROR \<and>
   fst (twopence_inject_virtio_serial idle_world ''a-b'' ''/tmp/out'') = TWOPENCE_PARAMETER_ERROR \<and>
   fst (twopence_extract_virtio_serial idle_world 0 ''a-b'' ''/tmp/out'') = TWOPENCE_PARAMETER_ERROR \<and>
   file_open idle_world = OpenOk \<and>
   fst (twopence_pipe_inject_file idle_world ''a-b'' ''/tmp/out'' 0) = TWOPENCE_PARAMETER_ERROR \<and>
   fst (twopence_pipe_extract_file idle_world 0 ''a-b'' ''/tmp/out'' 0) = TWOPENCE_PARAMETER_ERROR \<and>
   \<not> twopence_invalid_username ''tester_1''"
proof -
  have bad: "twopence_invalid_username ''a-b''"
    by (simp add: char_order)
  have good: "\<not> twopence_invalid_username ''tester_1''"
    by (simp add: char_order)
  have op: "file_open idle_world = OpenOk"
    by (simp add: idle_world_def)
  have dash: "\<not> username_char (CHR ''-'')"
    by (simp add: username_char_def char_order)
  from username_check [of "''a-b''" idle_world "''ls''" "''/tmp/out''" 0 0] bad op good dash
  show ?thesis
    by simp
qed

text \<open>
  The claim as stated has the empty user name rejected. It is accepted: with the empty
  name the command is sent to the peer and runs to its end.
\<close>

theorem empty_username_accepted:
  "\<not> twopence_invalid_username [] \<and>
   fst (twopence_pipe_command served_world [] ''ls'') = 0 \<and>
   link_sent (snd (snd (snd (twopence_pipe_command served_world [] ''ls'')))) =
     store_length 8 (''c... ls'' @ [CHR 0x00]) \<and>
   TWOPENCE_PARAMETER_ERROR \<noteq> 0"
proof -
  define w3 where "w3 = emit (SysSendLink (store_length 8 (''c... ls'' @ [CHR 0x00])))
    (emit SysOpenLink (emit (SysTuneStdin False) served_world))"
  define w4 where "w4 = w3\<lparr>poll_both := [P2Ready True False],
    link_rx := [RxData (frame (CHR ''m'') ''0'')],
    trace := trace w3 @ [SysRecvLink (take 4 (frame (CHR ''M'') ''0'')), SysRecvLink ''0'']\<rparr>"
  define w5 where "w5 = w4\<lparr>poll_both := [], link_rx := [],
    trace := trace w4 @ [SysRecvLink (take 4 (frame (CHR ''m'') ''0'')), SysRecvLink ''0'']\<rparr>"
  have tx: "link_tx (emit SysOpenLink (emit (SysTuneStdin False) served_world)) = []"
    by (simp add: served_world_def idle_world_def emit_def)
  have sent: "twopence_pipe_sendbuf (emit SysOpenLink (emit (SysTuneStdin False) served_world))
      (store_length 8 (''c... ls'' @ [CHR 0x00])) = (8, w3)"
    unfolding w3_def by (subst sendbuf_link_ready [OF tx]) (simp_all add: store_length_def)
  have r1: "twopence_pipe_recvbuf_both w3 0 BUFFER_SIZE = (0, frame (CHR ''M'') ''0'', w4)"
    by (subst recvbuf_both_link_ready [of _ False "[P2Ready True False]"])
      (simp_all add: w3_def w4_def served_world_def idle_world_def emit_def twopence_pipe_read_frame_def
        twopence_pipe_recvbuf.simps frame_def store_length_def compute_length_def BUFFER_SIZE_def Let_def)
  have r2: "twopence_pipe_recvbuf_both w4 0 BUFFER_SIZE = (0, frame (CHR ''m'') ''0'', w5)"
    by (subst recvbuf_both_link_ready [of _ False "[]"])
      (simp_all add: w3_def w4_def w5_def served_world_def idle_world_def emit_def twopence_pipe_read_frame_def
        twopence_pipe_recvbuf.simps frame_def store_length_def compute_length_def BUFFER_SIZE_def Let_def)
  have stack: "results_stack w3 = zero_buffer"
    by (simp add: w3_def emit_keeps served_world_def idle_world_def)
  have major: "twopence_read_results_loop w3 0 0 0 0 zero_buffer =
      twopence_read_results_loop w4 1 0
        (sscanf_d (drop 4 (stored (frame (CHR ''M'') ''0'') zero_buffer)) 0) 0
        (stored (frame (CHR ''M'') ''0'') zero_buffer)"
    by (rule read_results_major [OF r1]) (simp add: stored_frame)
  have minor: "twopence_read_results_loop w4 1 0 0 0 (stored (frame (CHR ''M'') ''0'') zero_buffer) =
      (0, 0, sscanf_d (drop 4 (stored (frame (CHR ''m'') ''0'')
         (stored (frame (CHR ''M'') ''0'') zero_buffer))) 0, w5)"
    by (rule read_results_minor [OF r2]) (simp add: stored_frame)
  have parsed: "sscanf_d (drop 4 (stored (frame t ''0'') zero_buffer)) 0 = 0" for t
    by (simp add: parse_zero_stack sscanf_d_digit BUFFER_SIZE_def)
  have res: "twopence_read_results w3 0 0 = (0, 0, 0, w5)"
    by (simp add: twopence_read_results_def stack major minor parsed stored_stored frame_facts)
  have n: "Suc (Suc (Suc (Suc (Suc (Suc (Suc (Suc 0))))))) = 8"
    by simp
  have rcs: "link_open_rc served_world = 3" "tune_stdin_rc served_world = 0"
    by (simp_all add: served_world_def idle_world_def)
  have run: "twopence_pipe_command served_world [] ''ls'' =
      (0, 0, 0, close_link (snd (twopence_tune_stdin w5 True)))"
    using sent res
    by (simp add: twopence_pipe_command_def c_str_def COMMAND_BUFFER_SIZE_def twopence_tune_stdin_def
        twopence_pipe_open_link_def emit_keeps rcs n Let_def)
  show ?thesis
    unfolding run
    by (simp add: twopence_errors link_sent_def close_link_def twopence_tune_stdin_def emit_def
        w5_def w4_def w3_def served_world_def idle_world_def)
qed

section \<open>Facts about transactions\<close>

lemmas transaction_calls =
  twopence_transaction_send_major_def twopence_transaction_send_minor_def
  twopence_transaction_send_status_def twopence_transaction_fail_def
  twopence_transaction_fail2_def twopence_transaction_send_timeout_def
  twopence_transaction_send_client_def build_uint_packet_def build_uint_packet_ps_def
  push_header_ps_def

lemmas packet_types =
  TWOPENCE_PROTO_TYPE_MAJOR_def TWOPENCE_PROTO_TYPE_MINOR_def TWOPENCE_PROTO_TYPE_TIMEOUT_def

text \<open>
  \<open>major_then_minor\<close>: the major status has been sent, and the status packets queued
  are that major, followed by the minor when \<open>minor_sent\<close> is set.
\<close>

definition major_then_minor :: "transaction \<Rightarrow> bool" where
  "major_then_minor t \<longleftrightarrow>
     major_sent t \<and>
     status_sent t =
       TWOPENCE_PROTO_TYPE_MAJOR # (if minor_sent t then [TWOPENCE_PROTO_TYPE_MINOR] else [])"

lemma call_keeps_major_then_minor:
  assumes "major_then_minor t" "keeps_flags c" "call c t = Some t'"
  shows "major_then_minor t'"
  using assms
  by (cases c)
     (auto simp: major_then_minor_def status_sent_def transaction_calls Let_def
           split: if_splits option.splits)

lemma calls_keep_major_then_minor:
  "major_then_minor t \<Longrightarrow> \<forall>c \<in> set cs. keeps_flags c \<Longrightarrow> calls cs t = Some t' \<Longrightarrow>
   major_then_minor t'"
proof (induction cs arbitrary: t)
  case Nil
  then show ?case by simp
next
  case (Cons c cs)
  from Cons.prems(3) obtain t1 where t1: "call c t = Some t1" "calls cs t1 = Some t'"
    by (auto split: option.splits)
  from call_keeps_major_then_minor [OF Cons.prems(1) _ t1(1)] Cons.prems(2)
  have "major_then_minor t1" by simp
  from Cons.IH [OF this _ t1(2)] Cons.prems(2) show ?case by simp
qed

lemma first_call_major:
  assumes "keeps_flags c" "\<not> minor_first (c # cs)"
    and "call c (twopence_transaction_new [] xid) = Some t"
  shows "major_then_minor t"
  using assms
  by (cases c)
     (auto simp: major_then_minor_def status_sent_def transaction_calls
           twopence_transaction_new_def Let_def packet_types split: if_splits option.splits)

text \<open>
  C3, as amended. Take a new transaction on an empty queue. If it reaches DONE through
  the calls that go through \<open>send_major\<close> and \<open>send_minor\<close> (these two, \<open>fail\<close>
  and \<open>fail2\<close>), with no assertion failing and the first call not \<open>send_minor\<close>, it
  has queued exactly one major status packet and at most one minor, the major first. A
  single \<open>send_status\<close> on the new transaction queues the major and then the minor and
  sets DONE. \<open>send_timeout\<close> sets DONE on any transaction and queues one timeout
  packet and no status packet.
\<close>

theorem status_frames_when_done:
  "(calls cs (twopence_transaction_new [] xid) = Some t \<and> trans_done t \<and>
    (\<forall>c \<in> set cs. keeps_flags c) \<and> \<not> minor_first cs \<longrightarrow>
      status_sent t = [TWOPENCE_PROTO_TYPE_MAJOR] \<or>
      status_sent t = [TWOPENCE_PROTO_TYPE_MAJOR, TWOPENCE_PROTO_TYPE_MINOR]) \<and>
   (\<exists>t'. twopence_transaction_send_status (twopence_transaction_new [] xid) a b = Some t' \<and>
         trans_done t' \<and>
         status_sent t' = [TWOPENCE_PROTO_TYPE_MAJOR, TWOPENCE_PROTO_TYPE_MINOR]) \<and>
   (\<exists>t'. twopence_transaction_send_timeout t0 = Some t' \<and> trans_done t' \<and>
         status_sent t' = status_sent t0 \<and>
         map ptype (client_sock t') = map ptype (client_sock t0) @ [TWOPENCE_PROTO_TYPE_TIMEOUT])"
proof (intro conjI impI)
  assume a: "calls cs (twopence_transaction_new [] xid) = Some t \<and> trans_done t \<and>
    (\<forall>c \<in> set cs. keeps_flags c) \<and> \<not> minor_first cs"
  show "status_sent t = [TWOPENCE_PROTO_TYPE_MAJOR] \<or>
        status_sent t = [TWOPENCE_PROTO_TYPE_MAJOR, TWOPENCE_PROTO_TYPE_MINOR]"
  proof (cases cs)
    case Nil
    with a show ?thesis by (auto simp: twopence_transaction_new_def)
  next
    case (Cons c cs')
    with a obtain t1 where t1:
      "call c (twopence_transaction_new [] xid) = Some t1" "calls cs' t1 = Some t"
      by (auto split: option.splits)
    from a Cons have "keeps_flags c" "\<not> minor_first (c # cs')" "\<forall>c \<in> set cs'. keeps_flags c"
      by simp_all
    from calls_keep_major_then_minor [OF first_call_major [OF this(1,2) t1(1)] this(3) t1(2)]
    show ?thesis by (simp add: major_then_minor_def)
  qed
next
  show "\<exists>t'. twopence_transaction_send_status (twopence_transaction_new [] xid) a b = Some t' \<and>
         trans_done t' \<and>
         status_sent t' = [TWOPENCE_PROTO_TYPE_MAJOR, TWOPENCE_PROTO_TYPE_MINOR]"
    by (simp add: transaction_calls twopence_transaction_new_def status_sent_def)
next
  show "\<exists>t'. twopence_transaction_send_timeout t0 = Some t' \<and> trans_done t' \<and>
         status_sent t' = status_sent t0 \<and>
         map ptype (client_sock t') = map ptype (client_sock t0) @ [TWOPENCE_PROTO_TYPE_TIMEOUT]"
    by (simp add: transaction_calls status_sent_def packet_types)
qed

theorem status_frames_when_done_witness:
  "calls [SendMajor 0, Fail 5] (twopence_transaction_new [] 7) =
     Some \<lparr>ps_xid = 7, major_sent = True, minor_sent = True, trans_done = True,
           client_sock = [\<lparr>ptype = CHR ''M'', pxid = Some 7, pvalue = Some 0\<rparr>,
                          \<lparr>ptype = CHR ''m'', pxid = Some 7, pvalue = Some 5\<rparr>]\<rparr> \<and>
   status_sent \<lparr>ps_xid = 7, major_sent = True, minor_sent = True, trans_done = True,
           client_sock = [\<lparr>ptype = CHR ''M'', pxid = Some 7, pvalue = Some 0\<rparr>,
                          \<lparr>ptype = CHR ''m'', pxid = Some 7, pvalue = Some 5\<rparr>]\<rparr>
     = [TWOPENCE_PROTO_TYPE_MAJOR, TWOPENCE_PROTO_TYPE_MINOR] \<and>
   keeps_flags (SendMajor 0) \<and> keeps_flags (Fail 5) \<and> \<not> minor_first [SendMajor 0, Fail 5]"
proof -
  let ?t = "\<lparr>ps_xid = 7, major_sent = True, minor_sent = True, trans_done = True,
           client_sock = [\<lparr>ptype = CHR ''M'', pxid = Some 7, pvalue = Some 0\<rparr>,
                          \<lparr>ptype = CHR ''m'', pxid = Some 7, pvalue = Some (5 :: 32 word)\<rparr>]\<rparr>"
  have run: "calls [SendMajor 0, Fail 5] (twopence_transaction_new [] 7) = Some ?t"
    by (simp add: transaction_calls twopence_transaction_new_def packet_types Let_def)
  from status_frames_when_done [of "[SendMajor 0, Fail 5]" 7 ?t] run
  show ?thesis
    by (simp add: status_sent_def packet_types)
qed

text \<open>
  The claim as stated fails in three ways. \<open>send_timeout\<close> on a new transaction reaches
  DONE with no major status sent (the timeout has a packet type of its own).
  \<open>send_status\<close> neither reads nor sets \<open>major_sent\<close>, so after \<open>send_major\<close> it
  queues a second major. \<open>send_minor\<close> does not ask for the major, so \<open>send_minor\<close>
  followed by \<open>fail\<close> queues the minor before the major.
\<close>

theorem done_without_one_major_first:
  "map_option trans_done (calls [SendTimeout] (twopence_transaction_new [] 7)) = Some True \<and>
   map_option status_sent (calls [SendTimeout] (twopence_transaction_new [] 7)) = Some [] \<and>
   map_option trans_done (calls [SendMajor 0, SendStatus 0 0] (twopence_transaction_new [] 7))
     = Some True \<and>
   map_option status_sent (calls [SendMajor 0, SendStatus 0 0] (twopence_transaction_new [] 7))
     = Some [TWOPENCE_PROTO_TYPE_MAJOR, TWOPENCE_PROTO_TYPE_MAJOR, TWOPENCE_PROTO_TYPE_MINOR] \<and>
   map_option trans_done (calls [SendMinor 0, Fail 5] (twopence_transaction_new [] 7))
     = Some True \<and>
   map_option status_sent (calls [SendMinor 0, Fail 5] (twopence_transaction_new [] 7))
     = Some [TWOPENCE_PROTO_TYPE_MINOR, TWOPENCE_PROTO_TYPE_MAJOR]"
  by (simp add: transaction_calls twopence_transaction_new_def status_sent_def packet_types Let_def)

section \<open>Facts about inject\<close>

lemma read_frame_whole:
  assumes "link_rx w = RxData f # rx" "4 < length f" "compute_length (take 4 f) = length f"
    and "length f \<le> sz"
  shows "twopence_pipe_read_frame w sz =
           (0, f, w\<lparr>link_rx := rx,
                    trace := trace w @ [SysRecvLink (take 4 f), SysRecvLink (drop 4 f)]\<rparr>)"
proof -
  let ?w1 = "w\<lparr>link_rx := RxData (drop 4 f) # rx, trace := trace w @ [SysRecvLink (take 4 f)]\<rparr>"
  from assms(2) have ne: "f \<noteq> []" "drop 4 f \<noteq> []" "take 4 f \<noteq> []"
    by auto
  have header: "twopence_pipe_recvbuf w 4 [] = (4, take 4 f, ?w1)"
    using assms(1,2) ne
    by (simp add: twopence_pipe_recvbuf.simps [of w 4 "[]"] twopence_pipe_recvbuf.simps [of _ 4 "take 4 f"] Let_def emit_def)
  have payload: "twopence_pipe_recvbuf ?w1 (length f - 4) [] =
      (int (length f - 4), drop 4 f,
       w\<lparr>link_rx := rx, trace := trace w @ [SysRecvLink (take 4 f), SysRecvLink (drop 4 f)]\<rparr>)"
    using assms(2) ne
    by (simp add: twopence_pipe_recvbuf.simps [of ?w1 "length f - 4" "[]"]
        twopence_pipe_recvbuf.simps [of _ "length f - 4" "drop 4 f"] Let_def emit_def)
  show ?thesis
    using header payload assms(2,3,4) by (simp add: twopence_pipe_read_frame_def)
qed








text \<open>
  What \<open>sscanf\<close> makes of the digits that \<open>dec\<close> writes: every character of
  \<open>dec n\<close> is a digit, so the scan reads all of them and stops at the NUL behind them,
  whatever follows the NUL. A number below \<open>2 ^ 31\<close> is stored as it is; a larger one
  loses its high bits, so that \<open>2 ^ 32\<close> is stored as 0. Without a NUL in the frame the
  scan goes on into the bytes that the stack held behind the frame.
\<close>

lemma isdigit_char_of:
  assumes "d < 10"
  shows "isdigit_c (char_of (48 + d))" "of_char (char_of (48 + d)) = int (48 + d)"
proof -
  show "isdigit_c (char_of (48 + d))"
    using assms by (simp add: isdigit_c_def char_order)
  have "(of_char (char_of (48 + d)) :: int) = int (of_char (char_of (48 + d)))"
    by (simp only: of_nat_of_char)
  also have "(of_char (char_of (48 + d)) :: nat) = (48 + d) mod 256"
    by (simp only: of_char_of)
  also have "\<dots> = 48 + d"
    using assms by simp
  finally show "of_char (char_of (48 + d)) = int (48 + d)" .
qed

lemma dec_digits:
  "dec n \<noteq> [] \<and> (\<forall>c \<in> set (dec n). isdigit_c c)"
proof (induction n rule: dec.induct)
  case (1 n)
  show ?case
  proof (cases "n < 10")
    case True
    then show ?thesis by (simp add: dec.simps [of n] isdigit_char_of)
  next
    case False
    have "n mod 10 < 10" by simp
    from isdigit_char_of(1) [OF this] "1.IH" [OF False] False show ?thesis
      by (simp add: dec.simps [of n])
  qed
qed

lemma isdigit_facts:
  "isdigit_c c \<Longrightarrow> \<not> isspace_c c \<and> c \<noteq> CHR ''-'' \<and> c \<noteq> CHR ''+'' \<and> c \<noteq> CHR 0x00"
  by (auto simp: isdigit_c_def isspace_c_def char_order)

lemma scan_digits_append:
  "\<forall>c \<in> set ds. isdigit_c c \<Longrightarrow> scan_digits acc (ds @ rest) = scan_digits (scan_digits acc ds) rest"
  by (induction ds arbitrary: acc) simp_all

lemma scan_digits_dec:
  "scan_digits 0 (dec n) = int n"
proof (induction n rule: dec.induct)
  case (1 n)
  show ?case
  proof (cases "n < 10")
    case True
    then show ?thesis by (simp add: dec.simps [of n] isdigit_char_of)
  next
    case False
    have d: "n mod 10 < 10" by simp
    have "scan_digits 0 (dec n) = scan_digits (scan_digits 0 (dec (n div 10))) [char_of (48 + n mod 10)]"
      using False dec_digits [of "n div 10"] by (simp add: dec.simps [of n] scan_digits_append)
    also have "\<dots> = int (n div 10) * 10 + int (n mod 10)"
      using "1.IH" [OF False] isdigit_char_of [OF d] by simp
    also have "\<dots> = int n"
      by (simp add: zdiv_int zmod_int)
    finally show ?thesis .
  qed
qed

lemma sscanf_d_dec:
  "sscanf_d (dec n @ CHR 0x00 # rest) old = store_int (int n)"
proof -
  from dec_digits [of n] obtain c cs where cs: "dec n = c # cs" and digit: "isdigit_c c"
    and all: "\<forall>c \<in> set (dec n). isdigit_c c"
    by (cases "dec n") auto
  from all isdigit_facts have "CHR 0x00 \<notin> set (dec n)"
    by blast
  then have "sscanf_d (dec n @ CHR 0x00 # rest) old = sscanf_d (dec n) old"
    by (rule sscanf_d_nul)
  also from all isdigit_facts have "CHR 0x00 \<notin> set (dec n)"
    by blast
  then have "c_str (dec n) = dec n"
    by (rule c_str_no_nul)
  then have "sscanf_d (dec n) old = store_int (scan_digits 0 (dec n))"
    using digit isdigit_facts [OF digit] by (simp add: sscanf_d_def cs scan_unsigned_def)
  also have "\<dots> = store_int (int n)"
    by (simp add: scan_digits_dec)
  finally show ?thesis .
qed

lemma read_major_dec:
  assumes "twopence_pipe_read_frame w BUFFER_SIZE =
             (0, CHR ''M'' # h1 # h2 # h3 # dec code @ CHR 0x00 # rest, w1)"
  shows "twopence_read_major w old = (0, store_int (int code), w1)"
proof -
  have "\<exists>tail. drop 4 (stored (CHR ''M'' # h1 # h2 # h3 # dec code @ CHR 0x00 # rest) (major_stack w)) =
      dec code @ CHR 0x00 # tail"
    by (simp add: stored_def)
  then obtain tail where
    "drop 4 (stored (CHR ''M'' # h1 # h2 # h3 # dec code @ CHR 0x00 # rest) (major_stack w)) =
      dec code @ CHR 0x00 # tail"
    by blast
  moreover have "stored (CHR ''M'' # h1 # h2 # h3 # dec code @ CHR 0x00 # rest) (major_stack w) ! 0 =
      CHR ''M''"
    by (simp add: stored_def)
  ultimately show ?thesis
    using assms by (simp add: twopence_read_major_def Let_def sscanf_d_dec)
qed

lemma store_int_wraps:
  "store_int 4294967296 = 0" "store_int 99999999999 = 1215752191" "store_int (2 ^ 63) = - 1"
  by (simp_all add: store_int_def strtol_sat_def)

lemma read_major_wraps:
  assumes "twopence_pipe_read_frame w BUFFER_SIZE =
             (0, CHR ''M'' # h1 # h2 # h3 # dec 4294967296 @ CHR 0x00 # rest, w1)"
  shows "twopence_read_major w old = (0, 0, w1)"
  using read_major_dec [OF assms, of old] by (simp add: store_int_wraps)

lemma read_major_reads_stack:
  assumes "twopence_pipe_read_frame w BUFFER_SIZE = (0, frame (CHR ''M'') ''5'', w1)"
    and "drop 5 (major_stack w) = ''234'' @ CHR 0x00 # tail"
  shows "twopence_read_major w old = (0, 5234, w1)"
proof -
  have "sscanf_d (''5234'' @ CHR 0x00 # tail) old = sscanf_d ''5234'' old"
    by (rule sscanf_d_nul) simp
  also have "\<dots> = 5234"
    by (simp add: sscanf_d_def c_str_def isspace_c_def scan_unsigned_def isdigit_c_def char_order
        store_int_small)
  finally show ?thesis
    using assms by (simp add: twopence_read_major_def Let_def stored_frame)
qed

text \<open>
  \<open>refusing_world\<close>: a local file of ten bytes, and a peer that cannot open the
  destination and answers the command with major status 2, written in decimal and
  ended by a NUL. \<open>refused_command\<close> is the command frame the client sends for user
  \<open>tester\<close> and the file \<open>/no/such/dir/x\<close>.
\<close>

definition refusing_world :: world where
  "refusing_world =
     idle_world\<lparr>file_st_size := 10, file_rd := [RdData ''0123456789''],
                 link_rx := [RxData (frame (CHR ''M'') (dec 2 @ [CHR 0x00]))]\<rparr>"

definition refused_command :: "char list" where
  "refused_command =
     store_length
       (length (''i...'' @ c_str ''tester'' @ '' '' @ dec (file_st_size refusing_world) @ '' ''
                  @ c_str ''/no/such/dir/x'') + 1)
       ((''i...'' @ c_str ''tester'' @ '' '' @ dec (file_st_size refusing_world) @ '' ''
           @ c_str ''/no/such/dir/x'') @ [CHR 0x00])"






text \<open>
  Why the code is bounded. \<open>wrapping_world\<close> is \<open>refusing_world\<close> with a peer whose
  major status is \<open>2 ^ 32\<close> and whose minor status is 0. The \<open>int\<close> that \<open>sscanf\<close>
  stores for the major status is 0, so the client sends the file in a \<open>'d'\<close> frame
  and \<open>twopence_pipe_inject_file\<close> returns 0 with \<open>*remote_rc = 0\<close>.
\<close>

definition wrapping_world :: world where
  "wrapping_world =
     refusing_world\<lparr>link_rx := [RxData (frame (CHR ''M'') (''4294967296'' @ [CHR 0x00])),
                                 RxData (frame (CHR ''m'') (''0'' @ [CHR 0x00]))]\<rparr>"

lemma inject_accepted:
  assumes "\<not> twopence_invalid_username username"
    and "text = ''i...'' @ c_str username @ '' '' @ dec (file_st_size w) @ '' ''
                  @ c_str remote_filename"
    and "length text < COMMAND_BUFFER_SIZE"
    and "0 \<le> link_open_rc w"
    and "twopence_pipe_sendbuf (emit SysOpenLink (emit SysFstat (emit SysOpenFile w)))
           (store_length (length text + 1) (text @ [CHR 0x00])) = (int (length text + 1), w2)"
    and "twopence_read_major w2 0 = (rc, 0, w3)"
    and "twopence_send_file w3 (sint (word_of_nat (file_st_size w) :: 32 word)) = (0, w4)"
    and "twopence_read_minor w4 0 = (0, minor, w5)"
  shows "twopence_inject_virtio_serial (emit SysOpenFile w) username remote_filename =
           (0, minor, close_link w5)"
  using assms
  by (simp add: twopence_inject_virtio_serial_def Let_def twopence_pipe_open_link_def emit_keeps)

lemma inject_wrapped_major_sends_file:
  "twopence_pipe_inject_file wrapping_world ''tester'' ''/no/such/dir/x'' 0 =
     (0, 0, snd (snd (twopence_pipe_inject_file wrapping_world ''tester'' ''/no/such/dir/x'' 0))) \<and>
   link_sent (snd (snd (twopence_pipe_inject_file wrapping_world ''tester'' ''/no/such/dir/x'' 0))) =
     refused_command @ frame (CHR ''d'') ''0123456789''"
proof -
  let ?F1 = "frame (CHR ''M'') (''4294967296'' @ [CHR 0x00])"
  let ?F2 = "frame (CHR ''m'') (''0'' @ [CHR 0x00])"
  let ?text = "''i...'' @ c_str ''tester'' @ '' '' @ dec (file_st_size wrapping_world) @ '' ''
                  @ c_str ''/no/such/dir/x''"
  define w1 where "w1 = emit SysOpenLink (emit SysFstat (emit SysOpenFile wrapping_world))"
  define w2 where "w2 = emit (SysSendLink refused_command) w1"
  define w3 where "w3 = w2\<lparr>link_rx := [RxData ?F2],
      trace := trace w2 @ [SysRecvLink (take 4 ?F1), SysRecvLink (drop 4 ?F1)]\<rparr>"
  define w4 where "w4 = emit (SysReadFile ''0123456789'') (w3\<lparr>file_rd := []\<rparr>)"
  define w5 where "w5 = emit (SysSendLink (frame (CHR ''d'') ''0123456789'')) w4"
  define w6 where "w6 = emit (SinkStdout (CHR ''.'')) w5"
  define w7 where "w7 = emit (SinkStdout (CHR 0x0A)) w6"
  define w8 where "w8 = w7\<lparr>link_rx := [],
      trace := trace w7 @ [SysRecvLink (take 4 ?F2), SysRecvLink (drop 4 ?F2)]\<rparr>"
  note worlds = w8_def w7_def w6_def w5_def w4_def w3_def w2_def w1_def
  have start: "file_open wrapping_world = OpenOk" "file_st_size wrapping_world = 10"
      "link_open_rc wrapping_world = 3" "link_tx wrapping_world = []"
      "file_rd wrapping_world = [RdData ''0123456789'']" "stdout_room wrapping_world = None"
      "send_pad wrapping_world = CHR 0x00" "trace wrapping_world = []"
      "link_rx wrapping_world = [RxData ?F1, RxData ?F2]"
    by (simp_all add: wrapping_world_def refusing_world_def idle_world_def)
  have size: "file_st_size refusing_world = 10"
    by (simp add: refusing_world_def idle_world_def)
  have command: "store_length (length ?text + 1) (?text @ [CHR 0x00]) = refused_command"
    by (simp add: refused_command_def start size)
  have fits: "length ?text < COMMAND_BUFFER_SIZE" "int (length ?text + 1) = int (length refused_command)"
      "refused_command \<noteq> []"
    by (simp_all add: start c_str_def dec.simps COMMAND_BUFFER_SIZE_def refused_command_def size
        store_length_def)
  have s1: "twopence_pipe_sendbuf w1 refused_command = (int (length refused_command), w2)"
    unfolding w2_def
    by (rule sendbuf_link_ready) (simp_all add: w1_def emit_keeps start fits)
  have len: "compute_length (take 4 ?F1) = length ?F1" "compute_length (take 4 ?F2) = length ?F2"
    by (simp_all add: frame_def store_length_def compute_length_def)
  have f1: "twopence_pipe_read_frame w2 BUFFER_SIZE = (0, ?F1, w3)"
    unfolding w3_def
    by (rule read_frame_whole [OF _ _ len(1)])
       (simp_all add: w2_def w1_def emit_keeps start frame_facts BUFFER_SIZE_def)
  have wrapped: "sscanf_d (''4294967296'' @ CHR 0x00 # tail) old = 0" for tail old
  proof -
    have "sscanf_d (''4294967296'' @ CHR 0x00 # tail) old = sscanf_d ''4294967296'' old"
      by (rule sscanf_d_nul) simp
    also have "\<dots> = store_int 4294967296"
      by (simp add: sscanf_d_def c_str_def isspace_c_def scan_unsigned_def isdigit_c_def char_order)
    finally show ?thesis
      by (simp add: store_int_wraps)
  qed
  have zero: "sscanf_d (''0'' @ CHR 0x00 # tail) old = 0" for tail old
    using sscanf_d_nul [of "''0''" tail old] by (simp add: sscanf_d_digit)
  have m1: "twopence_read_major w2 0 = (0, 0, w3)"
    using wrapped by (simp add: twopence_read_major_def f1 Let_def stored_frame)
  have rd: "file_read w3 10 = (10, ''0123456789'', w4)"
    by (simp add: file_read_def w4_def w3_def w2_def w1_def emit_keeps start)
  have data: "frame (CHR ''d'') ''0123456789'' \<noteq> []"
    by (simp add: frame_def store_length_def)
  have tx: "twopence_pipe_sendbuf w4 (frame (CHR ''d'') ''0123456789'') = (14, w5)"
    unfolding w5_def
    by (subst sendbuf_link_ready [OF _ data])
       (simp_all add: w4_def w3_def w2_def w1_def emit_keeps start frame_facts)
  have dot: "twopence_pipe_output w5 (CHR ''.'') = (0, w6)"
    by (simp add: twopence_pipe_output_def twopence_sink_write_stdout_def worlds emit_keeps start)
  have nl: "twopence_pipe_output w6 (CHR 0x0A) = (0, w7)"
    by (simp add: twopence_pipe_output_def twopence_sink_write_stdout_def worlds emit_keeps start)
  have pad: "send_pad w3 = CHR 0x00"
    by (simp add: worlds emit_keeps start)
  have whole: "take 14 (store_length 14 (CHR ''d'' # CHR 0x00 # CHR 0x00 # CHR 0x00 # ''0123456789'')) =
      frame (CHR ''d'') ''0123456789''"
    by (simp add: frame_def store_length_def)
  have sf: "twopence_send_file w3 10 = (0, w7)"
    by (simp add: twopence_send_file.simps [of w3 10] twopence_send_file.simps [of w6 0] rd tx dot nl
        pad whole BUFFER_SIZE_def)
  have f2: "twopence_pipe_read_frame w7 BUFFER_SIZE = (0, ?F2, w8)"
    unfolding w8_def
    by (rule read_frame_whole [OF _ _ len(2)])
       (simp_all add: worlds emit_keeps start frame_facts BUFFER_SIZE_def)
  have m2: "twopence_read_minor w7 0 = (0, 0, w8)"
    using zero by (simp add: twopence_read_minor_def f2 Let_def stored_frame)
  have valid: "\<not> twopence_invalid_username ''tester''"
    by (simp add: char_order)
  have s1': "twopence_pipe_sendbuf (emit SysOpenLink (emit SysFstat (emit SysOpenFile wrapping_world)))
      (store_length (length ?text + 1) (?text @ [CHR 0x00])) = (int (length ?text + 1), w2)"
    unfolding command fits(2) w1_def [symmetric] by (rule s1)
  have sf': "twopence_send_file w3 (sint (word_of_nat (file_st_size wrapping_world) :: 32 word)) = (0, w7)"
    by (simp add: start sf)
  have opens: "0 \<le> link_open_rc wrapping_world"
    by (simp add: start)
  have inj: "twopence_inject_virtio_serial (emit SysOpenFile wrapping_world) ''tester'' ''/no/such/dir/x'' =
      (0, 0, close_link w8)"
    by (rule inject_accepted [OF valid refl fits(1) opens s1' m1 sf' m2])
  have api: "twopence_pipe_inject_file wrapping_world ''tester'' ''/no/such/dir/x'' 0 =
      (0, 0, emit SysCloseFile (close_link w8))"
    by (simp add: twopence_pipe_inject_file_def start inj)
  have "link_sent (emit SysCloseFile (close_link w8)) = refused_command @ frame (CHR ''d'') ''0123456789''"
    by (simp add: link_sent_def close_link_def worlds emit_def start)
  with api show ?thesis
    by simp
qed

section \<open>Runs of extract, of the file sender and of the two-descriptor receive\<close>

lemma read_frame_silent:
  "link_rx w = [] \<Longrightarrow> twopence_pipe_read_frame w sz = (TWOPENCE_PROTOCOL_ERROR, [], w)"
  by (simp add: twopence_pipe_read_frame_def twopence_pipe_recvbuf.simps [of w 4 "[]"] twopence_errors)

lemma receive_file_link_error:
  "0 < remaining \<Longrightarrow> twopence_pipe_read_frame w BUFFER_SIZE = (rc, buffer, w1) \<Longrightarrow> rc \<noteq> 0 \<Longrightarrow>
   twopence_receive_file w remaining = (TWOPENCE_RECEIVE_FILE_ERROR, snd (twopence_pipe_output w1 (CHR 0x0A)))"
  by (simp add: twopence_receive_file.simps [of w remaining])

lemma extract_after_size:
  assumes "\<not> twopence_invalid_username username"
    and "text = ''e...'' @ c_str username @ '' '' @ c_str remote_filename"
    and "length text < COMMAND_BUFFER_SIZE"
    and "0 \<le> link_open_rc w"
    and "twopence_pipe_sendbuf (emit SysOpenLink w) (store_length (length text + 1) (text @ [CHR 0x00]))
           = (int (length text + 1), w2)"
    and "twopence_read_size w2 size0 0 = (0, size1, remote_rc, w3)"
  shows "twopence_extract_virtio_serial w size0 username remote_filename =
           (if size1 \<ge> 0 then
              (case twopence_receive_file w3 size1 of (rc1, w4) \<Rightarrow>
                 if rc1 < 0 then (TWOPENCE_RECEIVE_FILE_ERROR, remote_rc, w4)
                 else (0, remote_rc, close_link w4))
            else (0, remote_rc, close_link w3))"
  using assms by (simp add: twopence_extract_virtio_serial_def Let_def twopence_pipe_open_link_def)

text \<open>
  \<open>extract_command\<close>: the command frame for user \<open>tester\<close> and the remote file
  \<open>/etc/x\<close>. \<open>stalled_world\<close>: the peer announces a file of five bytes and then
  nothing more arrives on the link.
\<close>

definition extract_command :: "char list" where
  "extract_command =
     store_length (length (''e...'' @ c_str ''tester'' @ '' '' @ c_str ''/etc/x'') + 1)
       ((''e...'' @ c_str ''tester'' @ '' '' @ c_str ''/etc/x'') @ [CHR 0x00])"

definition stalled_world :: world where
  "stalled_world = idle_world\<lparr>link_rx := [RxData (frame (CHR ''s'') ''5'')]\<rparr>"

lemma extract_command_sent:
  assumes "link_tx w = []" "link_open_rc w = 3"
  shows "twopence_pipe_sendbuf (emit SysOpenLink w)
           (store_length (length (''e...'' @ c_str ''tester'' @ '' '' @ c_str ''/etc/x'') + 1)
              ((''e...'' @ c_str ''tester'' @ '' '' @ c_str ''/etc/x'') @ [CHR 0x00]))
         = (int (length (''e...'' @ c_str ''tester'' @ '' '' @ c_str ''/etc/x'') + 1),
            emit (SysSendLink extract_command) (emit SysOpenLink w))"
proof -
  have tx: "link_tx (emit SysOpenLink w) = []"
    using assms(1) by (simp add: emit_keeps)
  show ?thesis
    unfolding extract_command_def [symmetric]
    by (subst sendbuf_link_ready [OF tx]) (simp_all add: extract_command_def store_length_def)
qed

lemma sscanf_d_five: "sscanf_d ''5'' old = 5"
  by (simp add: sscanf_d_def c_str_def isspace_c_def scan_unsigned_def isdigit_c_def char_order
      store_int_small)

text \<open>
  C5, the code at a failing input. In \<open>stalled_world\<close> the link is opened, the size
  arrives and the receiving of the file fails on the silent link. The extract returns
  the receive-file error; the calls made are those listed, with the open of the link and
  no close of it.
\<close>

theorem extract_leaves_link_open:
  "fst (twopence_pipe_extract_file stalled_world 0 ''tester'' ''/etc/x'' 0) = TWOPENCE_RECEIVE_FILE_ERROR \<and>
   trace (snd (snd (twopence_pipe_extract_file stalled_world 0 ''tester'' ''/etc/x'' 0))) =
     [SysOpenFile, SysOpenLink, SysSendLink extract_command,
      SysRecvLink (take 4 (frame (CHR ''s'') ''5'')), SysRecvLink ''5'',
      SinkStdout (CHR 0x0A), SysCloseFile] \<and>
   \<not> link_closed (snd (snd (twopence_pipe_extract_file stalled_world 0 ''tester'' ''/etc/x'' 0)))"
proof -
  let ?w0 = "emit SysOpenFile stalled_world"
  let ?w2 = "emit (SysSendLink extract_command) (emit SysOpenLink ?w0)"
  let ?w3 = "?w2\<lparr>link_rx := [],
      trace := trace ?w2 @ [SysRecvLink (take 4 (frame (CHR ''s'') ''5'')),
                           SysRecvLink (drop 4 (frame (CHR ''s'') ''5''))]\<rparr>"
  have opens: "file_open stalled_world = OpenOk"
    by (simp add: stalled_world_def idle_world_def)
  have valid: "\<not> twopence_invalid_username ''tester''"
    by (simp add: char_order)
  have fits: "length (''e...'' @ c_str ''tester'' @ '' '' @ c_str ''/etc/x'') < COMMAND_BUFFER_SIZE"
    by (simp add: c_str_def COMMAND_BUFFER_SIZE_def)
  have w0: "link_tx ?w0 = []" "link_open_rc ?w0 = 3" "0 \<le> link_open_rc ?w0"
    by (simp_all add: emit_keeps stalled_world_def idle_world_def)
  have rx: "link_rx ?w2 = [RxData (frame (CHR ''s'') ''5'')]"
    by (simp add: emit_keeps stalled_world_def idle_world_def)
  have len: "compute_length (take 4 (frame (CHR ''s'') ''5'')) = length (frame (CHR ''s'') ''5'')"
    by (simp add: frame_def store_length_def compute_length_def)
  have frame: "twopence_pipe_read_frame ?w2 BUFFER_SIZE = (0, frame (CHR ''s'') ''5'', ?w3)"
    by (rule read_frame_whole [OF rx frame_facts(1) len])
       (simp add: frame_facts BUFFER_SIZE_def)
  have stack: "size_stack ?w2 = zero_buffer"
    by (simp add: emit_keeps stalled_world_def idle_world_def)
  have parsed: "sscanf_d (drop 4 (stored (frame (CHR ''s'') ''5'') zero_buffer)) 0 = 5"
    by (simp add: parse_zero_stack sscanf_d_five BUFFER_SIZE_def)
  have size: "twopence_read_size ?w2 0 0 = (0, 5, 0, ?w3)"
    by (simp add: twopence_read_size_def frame stack stored_frame(1) parsed frame_facts Let_def)
  have silent: "link_rx ?w3 = []"
    by simp
  have recv: "twopence_receive_file ?w3 5 =
      (TWOPENCE_RECEIVE_FILE_ERROR, snd (twopence_pipe_output ?w3 (CHR 0x0A)))"
    by (rule receive_file_link_error [OF _ read_frame_silent [OF silent]])
       (simp_all add: twopence_errors)
  have ext: "twopence_extract_virtio_serial ?w0 0 ''tester'' ''/etc/x'' =
      (TWOPENCE_RECEIVE_FILE_ERROR, 0, snd (twopence_pipe_output ?w3 (CHR 0x0A)))"
    by (subst extract_after_size [OF valid refl fits w0(3) extract_command_sent [OF w0(1,2)] size])
       (simp add: recv twopence_errors)
  have api: "twopence_pipe_extract_file stalled_world 0 ''tester'' ''/etc/x'' 0 =
      (TWOPENCE_RECEIVE_FILE_ERROR, 0, emit SysCloseFile (snd (twopence_pipe_output ?w3 (CHR 0x0A))))"
    using opens by (simp add: twopence_pipe_extract_file_def ext twopence_errors)
  show ?thesis
    unfolding api
    by (simp add: link_closed_def twopence_pipe_output_def twopence_sink_write_stdout_def emit_def frame_facts
        stalled_world_def idle_world_def)
qed

text \<open>
  \<open>missing_world\<close>: the remote file does not exist, and the peer answers the extract
  command with major status 2 and nothing else.
\<close>

definition missing_world :: world where
  "missing_world = idle_world\<lparr>link_rx := [RxData (frame (CHR ''M'') ''2'')]\<rparr>"

lemma receive_file_nothing:
  "twopence_receive_file w 0 = (0, snd (twopence_pipe_output w (CHR 0x0A)))"
  by (simp add: twopence_receive_file.simps [of w 0])

text \<open>
  C7, the code at a failing input. The early major is stored in \<open>*remote_rc\<close>, but
  \<open>size\<close> keeps the value it had before \<open>_twopence_read_size\<close>. When that value is 1
  the client goes on to read file data from the link and the public function returns the
  receive-file error, with the link left open; only when it is 0 (or negative) does the
  public function return the remote-file error.
\<close>

theorem extract_early_major_reads_on:
  "fst (twopence_pipe_extract_file missing_world 1 ''tester'' ''/etc/x'' 0) = TWOPENCE_RECEIVE_FILE_ERROR \<and>
   fst (snd (twopence_pipe_extract_file missing_world 1 ''tester'' ''/etc/x'' 0)) = 2 \<and>
   \<not> link_closed (snd (snd (twopence_pipe_extract_file missing_world 1 ''tester'' ''/etc/x'' 0))) \<and>
   fst (twopence_pipe_extract_file missing_world 0 ''tester'' ''/etc/x'' 0) = TWOPENCE_REMOTE_FILE_ERROR \<and>
   fst (snd (twopence_pipe_extract_file missing_world 0 ''tester'' ''/etc/x'' 0)) = 2 \<and>
   TWOPENCE_RECEIVE_FILE_ERROR \<noteq> TWOPENCE_REMOTE_FILE_ERROR"
proof -
  let ?w0 = "emit SysOpenFile missing_world"
  let ?w2 = "emit (SysSendLink extract_command) (emit SysOpenLink ?w0)"
  let ?w3 = "?w2\<lparr>link_rx := [],
      trace := trace ?w2 @ [SysRecvLink (take 4 (frame (CHR ''M'') ''2'')),
                           SysRecvLink (drop 4 (frame (CHR ''M'') ''2''))]\<rparr>"
  have opens: "file_open missing_world = OpenOk"
    by (simp add: missing_world_def idle_world_def)
  have valid: "\<not> twopence_invalid_username ''tester''"
    by (simp add: char_order)
  have fits: "length (''e...'' @ c_str ''tester'' @ '' '' @ c_str ''/etc/x'') < COMMAND_BUFFER_SIZE"
    by (simp add: c_str_def COMMAND_BUFFER_SIZE_def)
  have w0: "link_tx ?w0 = []" "link_open_rc ?w0 = 3" "0 \<le> link_open_rc ?w0"
    by (simp_all add: emit_keeps missing_world_def idle_world_def)
  have rx: "link_rx ?w2 = [RxData (frame (CHR ''M'') ''2'')]"
    by (simp add: emit_keeps missing_world_def idle_world_def)
  have len: "compute_length (take 4 (frame (CHR ''M'') ''2'')) = length (frame (CHR ''M'') ''2'')"
    by (simp add: frame_def store_length_def compute_length_def)
  have frame: "twopence_pipe_read_frame ?w2 BUFFER_SIZE = (0, frame (CHR ''M'') ''2'', ?w3)"
    by (rule read_frame_whole [OF rx frame_facts(1) len])
       (simp add: frame_facts BUFFER_SIZE_def)
  have stack: "size_stack ?w2 = zero_buffer"
    by (simp add: emit_keeps missing_world_def idle_world_def)
  have parsed: "sscanf_d (drop 4 (stored (frame (CHR ''M'') ''2'') zero_buffer)) 0 = 2"
    by (simp add: parse_zero_stack sscanf_d_digit BUFFER_SIZE_def)
  have size: "twopence_read_size ?w2 size0 0 = (0, size0, 2, ?w3)" for size0
    by (simp add: twopence_read_size_def frame stack stored_frame(1) parsed frame_facts Let_def)
  have silent: "link_rx ?w3 = []"
    by simp
  have recv: "twopence_receive_file ?w3 1 =
      (TWOPENCE_RECEIVE_FILE_ERROR, snd (twopence_pipe_output ?w3 (CHR 0x0A)))"
    by (rule receive_file_link_error [OF _ read_frame_silent [OF silent]])
       (simp_all add: twopence_errors)
  have ext1: "twopence_extract_virtio_serial ?w0 1 ''tester'' ''/etc/x'' =
      (TWOPENCE_RECEIVE_FILE_ERROR, 2, snd (twopence_pipe_output ?w3 (CHR 0x0A)))"
    by (subst extract_after_size [OF valid refl fits w0(3) extract_command_sent [OF w0(1,2)] size])
       (simp add: recv twopence_errors)
  have ext0: "twopence_extract_virtio_serial ?w0 0 ''tester'' ''/etc/x'' =
      (0, 2, close_link (snd (twopence_pipe_output ?w3 (CHR 0x0A))))"
    by (subst extract_after_size [OF valid refl fits w0(3) extract_command_sent [OF w0(1,2)] size])
       (simp add: receive_file_nothing)
  have api1: "twopence_pipe_extract_file missing_world 1 ''tester'' ''/etc/x'' 0 =
      (TWOPENCE_RECEIVE_FILE_ERROR, 2, emit SysCloseFile (snd (twopence_pipe_output ?w3 (CHR 0x0A))))"
    using opens by (simp add: twopence_pipe_extract_file_def ext1 twopence_errors)
  have api0: "twopence_pipe_extract_file missing_world 0 ''tester'' ''/etc/x'' 0 =
      (TWOPENCE_REMOTE_FILE_ERROR, 2,
       emit SysCloseFile (close_link (snd (twopence_pipe_output ?w3 (CHR 0x0A)))))"
    using opens by (simp add: twopence_pipe_extract_file_def ext0)
  show ?thesis
    unfolding api1 api0
    by (simp add: link_closed_def twopence_pipe_output_def twopence_sink_write_stdout_def emit_def frame_facts
        missing_world_def idle_world_def twopence_errors)
qed

text \<open>
  The test after the send cannot hold: \<open>__twopence_pipe_sendbuf\<close> returns a negative
  number or the count sent and never 0 for a frame, so \<open>_twopence_send_file\<close> never
  returns the send-file error, whatever the file and the link do.
\<close>

lemma sendbuf_from_nonzero:
  "sent < length buffer \<or> 0 < sent \<Longrightarrow> fst (twopence_pipe_sendbuf_from w buffer sent) \<noteq> 0"
proof (induction w buffer sent rule: twopence_pipe_sendbuf_from.induct)
  case (1 w buffer sent)
  show ?case
  proof (cases "sent < length buffer")
    case False
    with "1.prems" show ?thesis by (simp add: twopence_pipe_sendbuf_from.simps [of w buffer sent])
  next
    case True
    show ?thesis
    proof (cases "link_tx w")
      case Nil
      from True have "length buffer < length buffer \<or> 0 < length buffer"
        by auto
      from "1.IH" (1) [OF True Nil this] show ?thesis
        using True Nil by (simp add: twopence_pipe_sendbuf_from.simps [of w buffer sent])
    next
      case (Cons e tx)
      show ?thesis
      proof (cases e)
        case (TxAccept n)
        have "sent + length (take n (drop sent buffer)) < length buffer \<or>
              0 < sent + length (take n (drop sent buffer))"
          using True by (cases "n = 0") auto
        from "1.IH" (2) [OF True Cons TxAccept refl this] show ?thesis
          using True Cons TxAccept by (simp add: twopence_pipe_sendbuf_from.simps [of w buffer sent] Let_def)
      qed (use True Cons in \<open>simp_all add: twopence_pipe_sendbuf_from.simps [of w buffer sent] twopence_errors\<close>)
    qed
  qed
qed

lemma sendbuf_nonzero: "buffer \<noteq> [] \<Longrightarrow> fst (twopence_pipe_sendbuf w buffer) \<noteq> 0"
  using sendbuf_from_nonzero [of 0 buffer w] by (simp add: twopence_pipe_sendbuf_def)

lemma length_store_length: "length (store_length n buffer) = length buffer"
  by (simp add: store_length_def)

lemma send_file_never_send_error:
  "fst (twopence_send_file w remaining) \<noteq> TWOPENCE_SEND_FILE_ERROR"
proof (induction w remaining rule: twopence_send_file.induct)
  case (1 w remaining)
  show ?case
  proof (cases "0 < remaining")
    case False
    then show ?thesis by (simp add: twopence_send_file.simps [of w remaining] twopence_errors)
  next
    case True
    let ?size = "if remaining < int BUFFER_SIZE - 4 then remaining else int BUFFER_SIZE - 4"
    obtain received data w1 where rd: "file_read w (nat ?size) = (received, data, w1)"
      by (cases "file_read w (nat ?size)") auto
    let ?buffer = "take (nat (received + 4))
        (store_length (nat (received + 4)) (CHR ''d'' # send_pad w # CHR 0x00 # CHR 0x00 # data))"
    obtain sent w2 where tx: "twopence_pipe_sendbuf w1 ?buffer = (sent, w2)"
      by (cases "twopence_pipe_sendbuf w1 ?buffer") auto
    show ?thesis
    proof (cases "received = ?size")
      case False
      with True rd show ?thesis
        by (simp add: twopence_send_file.simps [of w remaining] twopence_errors)
    next
      case same: True
      have "0 < ?size" using True by (simp add: BUFFER_SIZE_def)
      with same have "?buffer \<noteq> []"
        by (simp add: length_store_length flip: length_greater_0_conv)
      from sendbuf_nonzero [OF this, of w1] tx have sent: "sent \<noteq> 0" by simp
      from same have same': "\<not> received \<noteq> ?size" by simp
      from "1.IH" [OF True refl rd [symmetric] refl same' tx [symmetric] sent]
      have "fst (twopence_send_file (snd (twopence_pipe_output w2 (CHR ''.''))) (remaining - received))
          \<noteq> TWOPENCE_SEND_FILE_ERROR" .
      then show ?thesis
        using True rd tx same sent
        by (simp add: twopence_send_file.simps [of w remaining])
    qed
  qed
qed

text \<open>
  \<open>broken_link_world\<close>: a local file of one byte, and a link whose first send fails.
\<close>

definition broken_link_world :: world where
  "broken_link_world = idle_world\<lparr>file_rd := [RdData ''a''], link_tx := [TxError 0]\<rparr>"

text \<open>
  C8, the code at a failing input. The send of the \<open>'d'\<close> frame fails with -1;
  \<open>_twopence_send_file\<close> prints its progress dot, goes on and returns 0.
\<close>

theorem send_file_ignores_link_error:
  "twopence_pipe_sendbuf (snd (snd (file_read broken_link_world 1))) (frame (CHR ''d'') ''a'')
     = (- 1, idle_world\<lparr>trace := [SysReadFile ''a'', SysSendLink []]\<rparr>) \<and>
   twopence_send_file broken_link_world 1
     = (0, idle_world\<lparr>trace := [SysReadFile ''a'', SysSendLink [],
                                 SinkStdout (CHR ''.''), SinkStdout (CHR 0x0A)]\<rparr>) \<and>
   TWOPENCE_SEND_FILE_ERROR \<noteq> 0"
proof -
  let ?w1 = "idle_world\<lparr>link_tx := [TxError 0], trace := [SysReadFile ''a'']\<rparr>"
  let ?w2 = "idle_world\<lparr>trace := [SysReadFile ''a'', SysSendLink []]\<rparr>"
  let ?w3 = "idle_world\<lparr>trace := [SysReadFile ''a'', SysSendLink [], SinkStdout (CHR ''.'')]\<rparr>"
  have rd: "file_read broken_link_world 1 = (1, ''a'', ?w1)"
    by (simp add: file_read_def broken_link_world_def idle_world_def emit_def)
  have tx: "twopence_pipe_sendbuf ?w1 (frame (CHR ''d'') ''a'') = (- 1, ?w2)"
    by (simp add: twopence_pipe_sendbuf_def twopence_pipe_sendbuf_from.simps frame_def store_length_def
        idle_world_def emit_def)
  have dot: "twopence_pipe_output ?w2 (CHR ''.'') = (0, ?w3)"
    by (simp add: twopence_pipe_output_def twopence_sink_write_stdout_def idle_world_def emit_def)
  have last: "twopence_send_file ?w3 0 = (0, idle_world\<lparr>trace := [SysReadFile ''a'', SysSendLink [],
                                 SinkStdout (CHR ''.''), SinkStdout (CHR 0x0A)]\<rparr>)"
    by (simp add: twopence_send_file.simps [of _ 0] twopence_pipe_output_def twopence_sink_write_stdout_def idle_world_def
        emit_def)
  have whole: "take 5 (frame (CHR ''d'') ''a'') = frame (CHR ''d'') ''a''"
    by (simp add: frame_facts)
  have pad: "send_pad broken_link_world = CHR 0x00"
    by (simp add: broken_link_world_def idle_world_def)
  have "twopence_send_file broken_link_world 1 = twopence_send_file ?w3 0"
    using rd tx dot whole
    by (simp add: twopence_send_file.simps [of broken_link_world 1] BUFFER_SIZE_def frame_def pad)
  with rd tx last show ?thesis
    by (simp add: twopence_errors)
qed

text \<open>
  Whatever the polls report, \<open>__twopence_pipe_recvbuf_both\<close> leaves standard input
  unread.
\<close>

lemma recvbuf_both_never_reads_stdin:
  "stdin_rd (snd (snd (twopence_pipe_recvbuf_both w stdin_fd sz))) = stdin_rd w"
proof (induction w stdin_fd sz rule: twopence_pipe_recvbuf_both.induct)
  case (1 w stdin_fd sz)
  have frame: "stdin_rd (snd (snd (twopence_pipe_read_frame (w\<lparr>poll_both := ps\<rparr>) sz))) = stdin_rd w" for ps
    using read_frame_keeps [of "w\<lparr>poll_both := ps\<rparr>" sz] by simp
  show ?case
  proof (cases "twopence_pipe_recvbuf_both_body w stdin_fd sz")
    case (Inl w')
    then have "stdin_rd w' = stdin_rd w"
      by (auto simp: twopence_pipe_recvbuf_both_body_def Let_def split: list.splits poll2_event.splits if_splits)
    with "1.IH" [OF Inl] Inl show ?thesis
      by (simp add: twopence_pipe_recvbuf_both.simps [of w stdin_fd sz])
  next
    case (Inr result)
    then have "stdin_rd (snd (snd result)) = stdin_rd w"
      using frame
      by (auto simp: twopence_pipe_recvbuf_both_body_def Let_def split: list.splits poll2_event.splits if_splits)
    with Inr show ?thesis
      by (simp add: twopence_pipe_recvbuf_both.simps [of w stdin_fd sz])
  qed
qed

text \<open>
  \<open>stdin_ready_world\<close>: the first poll reports standard input readable and the link
  not readable; standard input holds two bytes.
\<close>

definition stdin_ready_world :: world where
  "stdin_ready_world =
     idle_world\<lparr>poll_both := [P2Ready False True], stdin_rd := [RdData ''hi'']\<rparr>"

text \<open>
  C6, the code at a failing input. With standard input readable and the link not, the
  helper reads nothing from standard input and returns no frame: it polls again, and
  here the second poll times out.
\<close>

theorem recvbuf_both_skips_stdin:
  "twopence_pipe_recvbuf_both stdin_ready_world 0 BUFFER_SIZE =
     (TWOPENCE_PROTOCOL_ERROR, [], idle_world\<lparr>stdin_rd := [RdData ''hi'']\<rparr>)"
  by (simp add: twopence_pipe_recvbuf_both.simps twopence_pipe_recvbuf_both_body_def stdin_ready_world_def idle_world_def)

end
